theory Spec2Isabelle
  imports Complex_Main
begin

section \<open>Data model of the interview orchestration engine\<close>

text \<open>
  The embedding follows the TypeScript sources of the backend:
  \<^item> \<^verbatim>\<open>ai/interfaces/interview-state.interface.ts\<close> for the records,
  \<^item> \<^verbatim>\<open>ResponseEvaluatorService\<close>, \<^verbatim>\<open>ConversationManagerService\<close> and
    \<^verbatim>\<open>InterviewOrchestratorService\<close> for the conversation state machine,
  \<^item> \<^verbatim>\<open>InterviewSessionManager\<close> and \<^verbatim>\<open>InterviewGateway\<close> for the registry of
    connections and the trust score.

  Conventions. A JavaScript \<^verbatim>\<open>number\<close> that holds a score or a counter is an \<open>int\<close> or a
  \<open>nat\<close>; quotients are taken in \<open>rat\<close>, so \<^verbatim>\<open>Math.round\<close> is exact. A JavaScript string is
  a \<open>string\<close>, one \<open>char\<close> for one code unit. An exception is a value of type \<open>error\<close> on
  the left of a sum. A collaborator (language model, database) is not code of the engine: what
  it answers in one call is an input of the model.
\<close>

datatype error =
    NotFound            \<comment> \<open>\<^verbatim>\<open>NotFoundException\<close>\<close>
  | BadRequest          \<comment> \<open>\<^verbatim>\<open>BadRequestException\<close>\<close>
  | ServiceUnavailable  \<comment> \<open>thrown by \<^verbatim>\<open>OpenAIService.chat\<close> and \<^verbatim>\<open>generateWithJSON\<close>\<close>
  | DatabaseError       \<comment> \<open>a Prisma call that throws\<close>
  | TypeError           \<comment> \<open>property access on \<^verbatim>\<open>undefined\<close>\<close>
  | IllTyped            \<comment> \<open>not an exception: a value of another shape than its field, where
                            JavaScript coerces and the typed model stops\<close>

datatype Recommendation = Hire | NoHire | Maybe

datatype Role = System | User | Assistant

record ChatMessage =
  role :: Role
  content :: string

text \<open>\<^verbatim>\<open>interface Question\<close>; \<open>qid\<close>, \<open>qtext\<close>, \<open>qtype\<close> and \<open>qorder\<close> are its fields
  \<^verbatim>\<open>id\<close>, \<^verbatim>\<open>text\<close>, \<^verbatim>\<open>type\<close> and \<^verbatim>\<open>order\<close>; \<open>keyPoints\<close> is \<^verbatim>\<open>scoringCriteria.keyPoints\<close>.\<close>

record Question =
  qid :: string
  qtext :: string
  qtype :: string
  keyPoints :: "string list"
  timeLimit :: "nat option"
  qorder :: nat

text \<open>\<^verbatim>\<open>interface EvaluationResult\<close>.\<close>

record EvaluationResult =
  score :: int
  strengths :: "string list"
  weaknesses :: "string list"
  recommendation :: Recommendation
  reasoning :: string

text \<open>An entry of \<^verbatim>\<open>ConversationContext.responses\<close>: \<^verbatim>\<open>{text, score, followUpsAsked, evaluation}\<close>.\<close>

record ResponseEntry =
  responseText :: string
  responseScore :: int
  followUpsAsked :: nat
  responseEvaluation :: string

text \<open>The template as Prisma loads it: \<^verbatim>\<open>template.assessments[i]\<close> has \<^verbatim>\<open>assessmentId\<close>,
  \<^verbatim>\<open>weightage\<close> and the joined \<^verbatim>\<open>assessment\<close> with its \<^verbatim>\<open>name\<close> and its JSON column
  \<^verbatim>\<open>questions\<close>, which may be \<^verbatim>\<open>null\<close>.\<close>

record Assessment =
  assessmentName :: string
  questions :: "Question list option"

record TemplateAssessment =
  assessmentId :: string
  weightage :: int
  assessment :: Assessment

record Template =
  jobTitle :: string
  jobDescription :: "string option"
  assessments :: "TemplateAssessment list"

text \<open>\<^verbatim>\<open>interface ConversationContext\<close>. The field \<^verbatim>\<open>sessionId\<close> is the key under which the
  session store holds the context (\<^verbatim>\<open>createSession\<close> stores it there and nothing changes
  either), so the record does not repeat it. \<open>responses\<close> is the object
  \<^verbatim>\<open>{[questionId]: entry}\<close> with its properties in insertion order.\<close>

record ConversationContext =
  interviewId :: string
  template :: Template
  currentAssessmentIndex :: nat
  currentQuestionIndex :: nat
  conversationHistory :: "ChatMessage list"
  candidateName :: string
  candidateEmail :: string
  responses :: "(string \<times> ResponseEntry) list"

section \<open>Strings\<close>

text \<open>\<^verbatim>\<open>String.prototype.toLowerCase\<close> on the letters \<^verbatim>\<open>A\<close> to \<^verbatim>\<open>Z\<close>, which are the only code
  units whose lower case can take part in a match with the three tokens of the follow-up
  policy; every other code unit is kept.\<close>

definition lowerChar :: "char \<Rightarrow> char" where
  "lowerChar c =
     (case map_of (zip ''ABCDEFGHIJKLMNOPQRSTUVWXYZ'' ''abcdefghijklmnopqrstuvwxyz'') c of
        Some l \<Rightarrow> l
      | None \<Rightarrow> c)"

definition toLowerCase :: "string \<Rightarrow> string" where
  "toLowerCase s = map lowerChar s"

fun startsWith :: "string \<Rightarrow> string \<Rightarrow> bool" where
  "startsWith s [] = True"
| "startsWith [] (d # t) = False"
| "startsWith (c # s) (d # t) = (c = d \<and> startsWith s t)"

text \<open>\<^verbatim>\<open>String.prototype.includes\<close>: the search string occurs at some position.\<close>

fun includesStr :: "string \<Rightarrow> string \<Rightarrow> bool" where
  "includesStr [] t = (t = [])"
| "includesStr (c # s) t = (startsWith (c # s) t \<or> includesStr s t)"

section \<open>ResponseEvaluatorService\<close>

text \<open>\<^verbatim>\<open>evaluateResponse\<close>: the reply of \<^verbatim>\<open>generateWithJSON\<close> is \<open>Some\<close> evaluation, or
  \<open>None\<close> when the call throws. The score is clamped to 0..100; the \<^verbatim>\<open>catch\<close> block returns
  the fallback evaluation, so the function itself never throws.\<close>

definition fallbackEvaluation :: EvaluationResult where
  "fallbackEvaluation =
     \<lparr>score = 50, strengths = [''Response provided''],
      weaknesses = [''Unable to fully evaluate''], recommendation = Maybe,
      reasoning = ''Evaluation service temporarily unavailable''\<rparr>"

definition evaluateResponse ::
  "Question \<Rightarrow> string \<Rightarrow> EvaluationResult option \<Rightarrow> EvaluationResult" where
  "evaluateResponse question response reply =
     (case reply of
        Some evaluation \<Rightarrow>
          (if score evaluation < 0 \<or> score evaluation > 100
           then evaluation\<lparr>score := max 0 (min 100 (score evaluation))\<rparr>
           else evaluation)
      | None \<Rightarrow> fallbackEvaluation)"

text \<open>\<^verbatim>\<open>needsFollowUp(evaluation, followUpsAlreadyAsked, responseLength)\<close>, branch by branch.\<close>

definition needsFollowUp :: "EvaluationResult \<Rightarrow> nat \<Rightarrow> nat \<Rightarrow> bool" where
  "needsFollowUp evaluation followUpsAlreadyAsked responseLength =
     (if followUpsAlreadyAsked \<ge> 2 then False
      else if score evaluation < 50 \<and> followUpsAlreadyAsked < 1 then True
      else if responseLength < 50 \<and> followUpsAlreadyAsked < 1 then True
      else if list_ex (\<lambda>w. includesStr (toLowerCase w) ''unclear''
                          \<or> includesStr (toLowerCase w) ''vague''
                          \<or> includesStr (toLowerCase w) ''specific'') (weaknesses evaluation)
              \<and> followUpsAlreadyAsked < 1 then True
      else False)"

text \<open>\<^verbatim>\<open>generateEvaluationText\<close>: the parts joined by a line feed. \<open>showInt\<close> prints the
  number of the template literal \<^verbatim>\<open>${evaluation.score}\<close> in decimal.\<close>

fun showNat :: "nat \<Rightarrow> string" where
  "showNat n =
     (if n < 10 then [''0123456789'' ! n] else showNat (n div 10) @ [''0123456789'' ! (n mod 10)])"

declare showNat.simps [simp del]

definition showInt :: "int \<Rightarrow> string" where
  "showInt i = (if i < 0 then CHR ''-'' # showNat (nat (- i)) else showNat (nat i))"

fun join :: "string \<Rightarrow> string list \<Rightarrow> string" where
  "join sep [] = []"
| "join sep [x] = x"
| "join sep (x # y # xs) = x @ sep @ join sep (y # xs)"

definition generateEvaluationText :: "EvaluationResult \<Rightarrow> string" where
  "generateEvaluationText evaluation =
     join [CHR 0x0A]
       ((if length (strengths evaluation) > 0
         then [''Strengths: '' @ join '', '' (strengths evaluation)] else [])
        @ (if length (weaknesses evaluation) > 0
           then [''Areas for improvement: '' @ join '', '' (weaknesses evaluation)] else [])
        @ [''Score: '' @ showInt (score evaluation) @ ''/100'',
           ''Reasoning: '' @ reasoning evaluation])"

section \<open>ConversationManagerService\<close>

text \<open>The rows of the two Prisma tables the orchestrator reads and writes, and the state of
  the backend: the in-memory \<^verbatim>\<open>sessionStore\<close> (a \<^verbatim>\<open>Map\<close> from session id to context) and
  the tables. \<open>responseTable\<close> is keyed by interview id and question id, the two columns by
  which \<^verbatim>\<open>saveResponseToDatabase\<close> looks a row up.\<close>

record InterviewRow =
  status :: string
  rowTemplate :: Template
  rowCandidateName :: string
  rowCandidateEmail :: string
  rowOverallScore :: "int option"
  rowScoreBreakdown :: "(string \<times> int) list option"
  aiEvaluation :: "string option"
  rowRecommendation :: "string option"

record ResponseRow =
  rowAssessmentId :: string
  rowQuestionText :: string
  rowResponseText :: string
  rowScore :: int
  rowEvaluation :: string
  rowTimeSpent :: nat
  rowOrder :: nat

record Backend =
  sessionStore :: "string \<rightharpoonup> ConversationContext"
  interviewTable :: "string \<rightharpoonup> InterviewRow"
  responseTable :: "string \<times> string \<rightharpoonup> ResponseRow"

text \<open>What the collaborators answer during one call of the orchestrator: \<open>None\<close> is a call
  that throws. \<open>databaseUp = False\<close> makes every Prisma call of the turn throw.
  \<open>summaryReply\<close> is the closing narrative together with what the line-by-line keyword scan
  of \<^verbatim>\<open>completeInterview\<close> extracts from it; that scan is not modelled.\<close>

record Narrative =
  narrativeText :: string
  parsedStrengths :: "string list"
  parsedWeaknesses :: "string list"
  parsedRecommendation :: Recommendation
  parsedInsights :: "string list"

record Collaborators =
  evaluatorReply :: "EvaluationResult option"
  followUpReply :: "string option"
  transitionReply :: "string option"
  adaptReply :: "string option"
  openingReply :: "string option"
  summaryReply :: "Narrative option"
  databaseUp :: bool

definition getContext :: "Backend \<Rightarrow> string \<Rightarrow> error + ConversationContext" where
  "getContext st sessionId =
     (case sessionStore st sessionId of None \<Rightarrow> Inl NotFound | Some context \<Rightarrow> Inr context)"

definition updateContext :: "string \<Rightarrow> ConversationContext \<Rightarrow> Backend \<Rightarrow> Backend" where
  "updateContext sessionId context st =
     st\<lparr>sessionStore := (sessionStore st)(sessionId \<mapsto> context)\<rparr>"

definition deleteSession :: "string \<Rightarrow> Backend \<Rightarrow> Backend" where
  "deleteSession sessionId st = st\<lparr>sessionStore := (sessionStore st)(sessionId := None)\<rparr>"

text \<open>\<^verbatim>\<open>context.conversationHistory.push({role, content})\<close>, the body of \<^verbatim>\<open>addMessage\<close>.\<close>

definition pushMessage :: "Role \<Rightarrow> string \<Rightarrow> ConversationContext \<Rightarrow> ConversationContext" where
  "pushMessage r c context =
     context\<lparr>conversationHistory := conversationHistory context @ [\<lparr>role = r, content = c\<rparr>]\<rparr>"

definition addMessage :: "string \<Rightarrow> Role \<Rightarrow> string \<Rightarrow> Backend \<Rightarrow> (error + unit) \<times> Backend" where
  "addMessage sessionId r c st =
     (case getContext st sessionId of
        Inl e \<Rightarrow> (Inl e, st)
      | Inr context \<Rightarrow> (Inr (), updateContext sessionId (pushMessage r c context) st))"

text \<open>\<^verbatim>\<open>(assessment.assessment.questions as any[]) || []\<close>.\<close>

definition questionsOf :: "TemplateAssessment \<Rightarrow> Question list" where
  "questionsOf ta = (case questions (assessment ta) of None \<Rightarrow> [] | Some qs \<Rightarrow> qs)"

definition getCurrentQuestion :: "ConversationContext \<Rightarrow> Question option" where
  "getCurrentQuestion context =
     (if currentAssessmentIndex context \<ge> length (assessments (template context)) then None
      else
        let qs = questionsOf (assessments (template context) ! currentAssessmentIndex context)
        in if currentQuestionIndex context \<ge> length qs then None
           else Some (qs ! currentQuestionIndex context))"

text \<open>\<^verbatim>\<open>moveToNextQuestion\<close> on the context object of the session. Reading
  \<^verbatim>\<open>currentAssessment.assessment\<close> when the index is past the end is a \<^verbatim>\<open>TypeError\<close>, thrown
  before anything is changed. The result is the returned flag and the mutated context.\<close>

definition moveToNextQuestion :: "ConversationContext \<Rightarrow> error + bool \<times> ConversationContext" where
  "moveToNextQuestion context =
     (if currentAssessmentIndex context \<ge> length (assessments (template context))
      then Inl TypeError
      else
        let qs = questionsOf (assessments (template context) ! currentAssessmentIndex context);
            context1 = context\<lparr>currentQuestionIndex := currentQuestionIndex context + 1\<rparr>
        in if currentQuestionIndex context1 \<ge> length qs
           then
             let context2 = context1\<lparr>currentAssessmentIndex := currentAssessmentIndex context1 + 1,
                                     currentQuestionIndex := 0\<rparr>
             in if currentAssessmentIndex context2 \<ge> length (assessments (template context2))
                then Inr (True, context2)
                else Inr (False, context2)
           else Inr (False, context1))"

record Progress =
  currentAssessment :: nat
  totalAssessments :: nat
  currentQuestion :: nat
  totalQuestions :: nat

definition getProgress :: "ConversationContext \<Rightarrow> Progress" where
  "getProgress context =
     \<lparr>currentAssessment = currentAssessmentIndex context + 1,
      totalAssessments = length (assessments (template context)),
      currentQuestion = currentQuestionIndex context + 1,
      totalQuestions =
        (if currentAssessmentIndex context < length (assessments (template context))
         then length (questionsOf (assessments (template context) ! currentAssessmentIndex context))
         else 0)\<rparr>"

text \<open>\<^verbatim>\<open>createSession\<close>: the session id is \<^verbatim>\<open>`interview:${interview.id}:${Date.now()}`\<close>, with
  \<open>now\<close> the clock value; \<open>found\<close> is what \<^verbatim>\<open>prisma.template.findUnique\<close> returns.\<close>

definition createSession ::
  "nat \<Rightarrow> string \<Rightarrow> InterviewRow \<Rightarrow> Template option \<Rightarrow> Backend \<Rightarrow> (error + string) \<times> Backend" where
  "createSession now ivId interview found st =
     (case found of
        None \<Rightarrow> (Inl NotFound, st)
      | Some t \<Rightarrow>
          let sessionId = ''interview:'' @ ivId @ '':'' @ showNat now;
              context = \<lparr>interviewId = ivId, template = t,
                         currentAssessmentIndex = 0, currentQuestionIndex = 0,
                         conversationHistory = [],
                         candidateName = rowCandidateName interview,
                         candidateEmail = rowCandidateEmail interview,
                         responses = []\<rparr>
          in (Inr sessionId, updateContext sessionId context st))"

section \<open>QuestionGeneratorService\<close>

text \<open>\<^verbatim>\<open>adaptQuestionToContext\<close>: without a job description the base text is returned; a chat
  call that throws falls back to the base text.\<close>

definition adaptQuestionToContext :: "Question \<Rightarrow> string option \<Rightarrow> string option \<Rightarrow> string" where
  "adaptQuestionToContext baseQuestion jd reply =
     (case jd of
        None \<Rightarrow> qtext baseQuestion
      | Some d \<Rightarrow>
          if d = [] then qtext baseQuestion
          else (case reply of Some t \<Rightarrow> t | None \<Rightarrow> qtext baseQuestion))"

section \<open>InterviewOrchestratorService\<close>

record InterviewTurn =
  turnText :: string
  turnScore :: int
  turnEvaluation :: string
  nextQuestion :: "Question option"
  isComplete :: bool
  progress :: Progress

text \<open>\<^verbatim>\<open>handleInterviewComplete\<close>.\<close>

definition handleInterviewComplete :: InterviewTurn where
  "handleInterviewComplete =
     \<lparr>turnText = [], turnScore = 0, turnEvaluation = [], nextQuestion = None, isComplete = True,
      progress = \<lparr>currentAssessment = 0, totalAssessments = 0,
                  currentQuestion = 0, totalQuestions = 0\<rparr>\<rparr>"

text \<open>\<^verbatim>\<open>context.responses[questionId] = entry\<close>: an existing property keeps its place, a new
  one goes last (the order of the properties matters to no result below: the scores are
  summed).\<close>

fun assign :: "string \<Rightarrow> 'v \<Rightarrow> (string \<times> 'v) list \<Rightarrow> (string \<times> 'v) list" where
  "assign k v [] = [(k, v)]"
| "assign k v (p # ps) = (if fst p = k then (k, v) # ps else p # assign k v ps)"

text \<open>\<^verbatim>\<open>saveResponseToDatabase\<close>. The loop over the assessments of the interview's template
  stops at the first one that holds the question; an empty id counts as not found.\<close>

definition findAssessmentId :: "Template \<Rightarrow> Question \<Rightarrow> string" where
  "findAssessmentId t question =
     (case find (\<lambda>ta. list_ex (\<lambda>q. qid q = qid question) (questionsOf ta)) (assessments t) of
        None \<Rightarrow> []
      | Some ta \<Rightarrow> assessmentId ta)"

definition saveResponseToDatabase ::
  "Collaborators \<Rightarrow> string \<Rightarrow> Question \<Rightarrow> string \<Rightarrow> EvaluationResult \<Rightarrow> Backend
     \<Rightarrow> error + Backend" where
  "saveResponseToDatabase env ivId question answer evaluation st =
     (if \<not> databaseUp env then Inl DatabaseError
      else
        case interviewTable st ivId of
          None \<Rightarrow> Inr st
        | Some interview \<Rightarrow>
            let aid = findAssessmentId (rowTemplate interview) question
            in if aid = [] then Inr st
               else
                 (case responseTable st (ivId, qid question) of
                    Some existing \<Rightarrow>
                      Inr (st\<lparr>responseTable := (responseTable st)((ivId, qid question) \<mapsto>
                             existing\<lparr>rowResponseText := answer,
                                      rowScore := score evaluation,
                                      rowEvaluation :=
                                        generateEvaluationText evaluation\<rparr>)\<rparr>)
                  | None \<Rightarrow>
                      Inr (st\<lparr>responseTable := (responseTable st)((ivId, qid question) \<mapsto>
                             \<lparr>rowAssessmentId = aid,
                              rowQuestionText = qtext question,
                              rowResponseText = answer,
                              rowScore = score evaluation,
                              rowEvaluation = generateEvaluationText evaluation,
                              rowTimeSpent =
                                (case timeLimit question of
                                   None \<Rightarrow> 120
                                 | Some l \<Rightarrow> if l = 0 then 120 else l),
                              rowOrder = qorder question\<rparr>)\<rparr>)))"

text \<open>
  \<^verbatim>\<open>processResponse\<close>. The \<^verbatim>\<open>context\<close> that \<^verbatim>\<open>getContext\<close> returns is the object the store
  holds, and \<^verbatim>\<open>addMessage\<close>, \<^verbatim>\<open>updateContext\<close> and \<^verbatim>\<open>moveToNextQuestion\<close> all work on that
  one object. So \<open>turnOn\<close> computes the turn on the context value, returning the context as
  it stands when the call returns or throws, and \<open>processResponse\<close> puts that value back in
  the store. A context read again after \<^verbatim>\<open>moveToNextQuestion\<close> (\<^verbatim>\<open>updatedContext\<close>) is the same
  object as \<^verbatim>\<open>context\<close>, so both names denote the value after the move.
\<close>

definition turnOf :: "string \<Rightarrow> EvaluationResult \<Rightarrow> Question option \<Rightarrow> bool
    \<Rightarrow> ConversationContext \<Rightarrow> InterviewTurn" where
  "turnOf answer evaluation nextQ finished context =
     \<lparr>turnText = answer, turnScore = score evaluation,
      turnEvaluation = generateEvaluationText evaluation,
      nextQuestion = nextQ, isComplete = finished, progress = getProgress context\<rparr>"

text \<open>The branch \<^verbatim>\<open>if (needsFollowUp)\<close>: the follow-up text is generated first (the chat call
  may throw), then the counter of the entry is incremented and the entry stored.\<close>

definition followUpBranch ::
  "Collaborators \<Rightarrow> string \<Rightarrow> Question \<Rightarrow> EvaluationResult \<Rightarrow> ResponseEntry
     \<Rightarrow> ConversationContext \<Rightarrow> Backend \<Rightarrow> (error + InterviewTurn) \<times> ConversationContext \<times> Backend" where
  "followUpBranch env answer currentQ evaluation existingResponse context st =
     (case followUpReply env of
        None \<Rightarrow> (Inl ServiceUnavailable, context, st)
      | Some followUpText \<Rightarrow>
          let existing1 = existingResponse\<lparr>followUpsAsked := followUpsAsked existingResponse + 1\<rparr>;
              context1 = context\<lparr>responses :=
                           assign (qid currentQ) existing1 (responses context)\<rparr>;
              context2 = pushMessage Assistant followUpText context1
          in (Inr (turnOf answer evaluation
                     (Some (currentQ\<lparr>qtext := followUpText\<rparr>)) False context2),
              context2, st))"

text \<open>The \<^verbatim>\<open>else\<close> branch: store the entry, save to the database, move the cursor, and
  when the interview goes on, announce the next question. In \<open>announceNext\<close> the test
  \<^verbatim>\<open>updatedContext.currentAssessmentIndex > context.currentAssessmentIndex\<close> reads the same
  object on both sides, so the transition message is never generated.\<close>

definition announceNext ::
  "Collaborators \<Rightarrow> string \<Rightarrow> EvaluationResult \<Rightarrow> Question
     \<Rightarrow> ConversationContext \<Rightarrow> Backend \<Rightarrow> (error + InterviewTurn) \<times> ConversationContext \<times> Backend" where
  "announceNext env answer evaluation nextQuestionData context st =
     (let transitioned =
            (if currentAssessmentIndex context > currentAssessmentIndex context
             then (case transitionReply env of
                     None \<Rightarrow> Inl ServiceUnavailable
                   | Some transition \<Rightarrow> Inr (pushMessage Assistant transition context))
             else Inr context)
      in case transitioned of
           Inl e \<Rightarrow> (Inl e, context, st)
         | Inr context1 \<Rightarrow>
             if \<not> databaseUp env then (Inl DatabaseError, context1, st)
             else
               let jd = (case interviewTable st (interviewId context1) of
                           None \<Rightarrow> None
                         | Some interview \<Rightarrow> jobDescription (rowTemplate interview));
                   adaptedNextQuestion =
                     adaptQuestionToContext nextQuestionData jd (adaptReply env);
                   context2 = pushMessage Assistant adaptedNextQuestion context1
               in (Inr (turnOf answer evaluation
                          (Some (nextQuestionData\<lparr>qtext := adaptedNextQuestion\<rparr>)) False context2),
                   context2, st))"

definition advanceBranch ::
  "Collaborators \<Rightarrow> string \<Rightarrow> Question \<Rightarrow> EvaluationResult \<Rightarrow> ResponseEntry
     \<Rightarrow> ConversationContext \<Rightarrow> Backend \<Rightarrow> (error + InterviewTurn) \<times> ConversationContext \<times> Backend" where
  "advanceBranch env answer currentQ evaluation existingResponse context st =
     (let context1 = context\<lparr>responses :=
                        assign (qid currentQ) existingResponse (responses context)\<rparr>
      in case saveResponseToDatabase env (interviewId context1) currentQ answer evaluation st of
           Inl e \<Rightarrow> (Inl e, context1, st)
         | Inr st1 \<Rightarrow>
             (case moveToNextQuestion context1 of
                Inl e \<Rightarrow> (Inl e, context1, st1)
              | Inr (finished, context2) \<Rightarrow>
                  if finished
                  then (Inr (turnOf answer evaluation None True context2), context2, st1)
                  else
                    (case getCurrentQuestion context2 of
                       None \<Rightarrow> (Inr (turnOf answer evaluation None False context2), context2, st1)
                     | Some nextQuestionData \<Rightarrow>
                         announceNext env answer evaluation nextQuestionData context2 st1)))"

definition turnOn ::
  "Collaborators \<Rightarrow> string \<Rightarrow> ConversationContext \<Rightarrow> Backend
     \<Rightarrow> (error + InterviewTurn) \<times> ConversationContext \<times> Backend" where
  "turnOn env answer context0 st =
     (let context = pushMessage User answer context0
      in case getCurrentQuestion context of
           None \<Rightarrow> (Inr handleInterviewComplete, context, st)
         | Some currentQ \<Rightarrow>
             let evaluation = evaluateResponse currentQ answer (evaluatorReply env);
                 existingResponse =
                   (case map_of (responses context) (qid currentQ) of
                      Some r \<Rightarrow> r
                    | None \<Rightarrow>
                        \<lparr>responseText = answer, responseScore = score evaluation,
                         followUpsAsked = 0,
                         responseEvaluation = generateEvaluationText evaluation\<rparr>)
             in if needsFollowUp evaluation (followUpsAsked existingResponse) (length answer)
                then followUpBranch env answer currentQ evaluation existingResponse context st
                else advanceBranch env answer currentQ evaluation existingResponse context st)"

definition processResponse ::
  "Collaborators \<Rightarrow> string \<Rightarrow> string \<Rightarrow> Backend \<Rightarrow> (error + InterviewTurn) \<times> Backend" where
  "processResponse env sessionId answer st =
     (case getContext st sessionId of
        Inl e \<Rightarrow> (Inl e, st)
      | Inr context0 \<Rightarrow>
          (case turnOn env answer context0 st of
             (result, context, st1) \<Rightarrow> (result, updateContext sessionId context st1)))"

text \<open>\<^verbatim>\<open>Math.round\<close> rounds to the nearest integer, a half upwards.\<close>

definition Math_round :: "rat \<Rightarrow> int" where
  "Math_round x = \<lfloor>x + 1 / 2\<rfloor>"

text \<open>\<^verbatim>\<open>scores.reduce((a, b) => a + b, 0) / scores.length\<close>.\<close>

definition average :: "int list \<Rightarrow> rat" where
  "average xs = of_int (sum_list xs) / of_nat (length xs)"

record InterviewSummary =
  summaryInterviewId :: string
  overallScore :: int
  scoreBreakdown :: "(string \<times> int) list"
  summaryEvaluation :: string
  summaryStrengths :: "string list"
  summaryWeaknesses :: "string list"
  summaryRecommendation :: Recommendation
  insights :: "string list"

text \<open>The overall score of \<^verbatim>\<open>completeInterview\<close>: the rounded mean of
  \<^verbatim>\<open>Object.values(context.responses).map(r => r.score)\<close>, or 0 without responses.\<close>

definition overallScoreOf :: "ConversationContext \<Rightarrow> int" where
  "overallScoreOf context =
     (let scores = map (\<lambda>(questionId, r). responseScore r) (responses context)
      in if length scores > 0 then Math_round (average scores) else 0)"

text \<open>The score breakdown: for each assessment of the template in turn, the responses whose
  question id is among the questions of the assessment; their rounded mean is stored under
  the assessment id when there is at least one.\<close>

definition assessmentResponses ::
  "TemplateAssessment \<Rightarrow> (string \<times> ResponseEntry) list \<Rightarrow> (string \<times> ResponseEntry) list" where
  "assessmentResponses ta rs =
     filter (\<lambda>(questionId, r). list_ex (\<lambda>q. qid q = questionId) (questionsOf ta)) rs"

definition scoreBreakdownOf :: "ConversationContext \<Rightarrow> (string \<times> int) list" where
  "scoreBreakdownOf context =
     foldl (\<lambda>breakdown ta.
              let rs = assessmentResponses ta (responses context)
              in if length rs > 0
                 then assign (assessmentId ta)
                        (Math_round (average (map (\<lambda>(questionId, r). responseScore r) rs)))
                        breakdown
                 else breakdown)
           [] (assessments (template context))"

definition recommendationUpper :: "Recommendation \<Rightarrow> string" where
  "recommendationUpper r = (case r of Hire \<Rightarrow> ''HIRE'' | NoHire \<Rightarrow> ''NO-HIRE'' | Maybe \<Rightarrow> ''MAYBE'')"

text \<open>\<^verbatim>\<open>completeInterview\<close>: read the context (or throw), compute the scores, ask for the
  narrative (a failure is caught), update the interview row (Prisma throws when the database
  is down or the row is missing), delete the session, return the summary.\<close>

definition completeInterview ::
  "Collaborators \<Rightarrow> string \<Rightarrow> Backend \<Rightarrow> (error + InterviewSummary) \<times> Backend" where
  "completeInterview env sessionId st =
     (case getContext st sessionId of
        Inl e \<Rightarrow> (Inl e, st)
      | Inr context \<Rightarrow>
          let overall = overallScoreOf context;
              breakdown = scoreBreakdownOf context;
              narrative =
                (case summaryReply env of
                   Some n \<Rightarrow> n
                 | None \<Rightarrow>
                     \<lparr>narrativeText = ''Summary generation failed'', parsedStrengths = [],
                      parsedWeaknesses = [], parsedRecommendation = Maybe, parsedInsights = []\<rparr>)
          in if \<not> databaseUp env then (Inl DatabaseError, st)
             else
               (case interviewTable st (interviewId context) of
                  None \<Rightarrow> (Inl DatabaseError, st)
                | Some interview \<Rightarrow>
                    let st1 = st\<lparr>interviewTable := (interviewTable st)(interviewId context \<mapsto>
                                 interview\<lparr>rowOverallScore := Some overall,
                                           rowScoreBreakdown := Some breakdown,
                                           aiEvaluation := Some (narrativeText narrative),
                                           rowRecommendation :=
                                             Some (recommendationUpper
                                                     (parsedRecommendation narrative))\<rparr>)\<rparr>;
                        st2 = deleteSession sessionId st1
                    in (Inr \<lparr>summaryInterviewId = interviewId context,
                             overallScore = overall,
                             scoreBreakdown = breakdown,
                             summaryEvaluation = narrativeText narrative,
                             summaryStrengths =
                               (if length (parsedStrengths narrative) > 0
                                then parsedStrengths narrative
                                else [''No specific strengths identified'']),
                             summaryWeaknesses =
                               (if length (parsedWeaknesses narrative) > 0
                                then parsedWeaknesses narrative
                                else [''No major weaknesses identified'']),
                             summaryRecommendation = parsedRecommendation narrative,
                             insights =
                               (if length (parsedInsights narrative) > 0
                                then parsedInsights narrative
                                else [''Continue evaluation process''])\<rparr>,
                        st2)))"

text \<open>\<^verbatim>\<open>startInterview\<close>. The session is created before the opening message is asked for, so
  a later failure leaves it in the store. The template relation of an interview row is
  required, so \<^verbatim>\<open>createSession\<close> finds the template of the row.\<close>

record AiSession =
  aiSessionKey :: string
  aiInterviewId :: string
  openingMessage :: string
  firstQuestion :: Question
  aiContext :: ConversationContext

definition startInterview ::
  "Collaborators \<Rightarrow> nat \<Rightarrow> string \<Rightarrow> Backend \<Rightarrow> (error + AiSession) \<times> Backend" where
  "startInterview env now ivId st =
     (if \<not> databaseUp env then (Inl DatabaseError, st)
      else
        case interviewTable st ivId of
          None \<Rightarrow> (Inl NotFound, st)
        | Some interview \<Rightarrow>
            if status interview \<noteq> ''ONGOING'' then (Inl BadRequest, st)
            else
              (case createSession now ivId interview (Some (rowTemplate interview)) st of
                 (Inl e, st1) \<Rightarrow> (Inl e, st1)
               | (Inr sessionId, st1) \<Rightarrow>
                   (case getContext st1 sessionId of
                      Inl e \<Rightarrow> (Inl e, st1)
                    | Inr context \<Rightarrow>
                        (case openingReply env of
                           None \<Rightarrow> (Inl ServiceUnavailable, st1)
                         | Some opening \<Rightarrow>
                             let context1 = pushMessage Assistant opening context
                             in case getCurrentQuestion context1 of
                                  None \<Rightarrow> (Inl BadRequest, updateContext sessionId context1 st1)
                                | Some firstQ \<Rightarrow>
                                    let adapted =
                                          adaptQuestionToContext firstQ
                                            (jobDescription (rowTemplate interview)) (adaptReply env);
                                        context2 = pushMessage Assistant adapted context1
                                    in (Inr \<lparr>aiSessionKey = sessionId, aiInterviewId = ivId,
                                             openingMessage = opening,
                                             firstQuestion = firstQ\<lparr>qtext := adapted\<rparr>,
                                             aiContext = context2\<rparr>,
                                        updateContext sessionId context2 st1)))))"

section \<open>The scoring formula of the specification and of \<^verbatim>\<open>InterviewsService\<close>\<close>

text \<open>The overall score as the specification words it: the sum over the assessments with at
  least one scored question of the assessment's mean score times its weight over 100, divided
  by the sum of those weights over 100, rounded.\<close>

definition claimedOverallScore :: "ConversationContext \<Rightarrow> int" where
  "claimedOverallScore context =
     (let answered = filter (\<lambda>ta. assessmentResponses ta (responses context) \<noteq> [])
                       (assessments (template context));
          mean = (\<lambda>ta. average (map (\<lambda>(questionId, r). responseScore r)
                                     (assessmentResponses ta (responses context))))
      in Math_round
           (sum_list (map (\<lambda>ta. mean ta * (of_int (weightage ta) / 100)) answered)
            / sum_list (map (\<lambda>ta. of_int (weightage ta) / 100) answered)))"

text \<open>\<^verbatim>\<open>InterviewsService.calculateOverallScore(responses, templateAssessments)\<close>, which
  \<^verbatim>\<open>InterviewsService.complete\<close> applies to the rows of the response table. A row's score may
  be \<^verbatim>\<open>null\<close>. The weights and products are exact rationals here and doubles in the source,
  which can round to the neighbouring integer when the exact value lies at a half (scores 58
  and 73 with weights 70 and 30); the values used below are whole numbers in both.\<close>

definition calculateOverallScore ::
  "(string \<times> int option) list \<Rightarrow> TemplateAssessment list \<Rightarrow> int" where
  "calculateOverallScore rows templateAssessments =
     (if length rows = 0 then 0
      else
        let scoresOf = (\<lambda>ta. concat (map (\<lambda>(aid, sc). case sc of None \<Rightarrow> [] | Some x \<Rightarrow>
                                               if aid = assessmentId ta then [x] else []) rows));
            totals = foldl (\<lambda>(totalWeightedScore, totalWeight) ta.
                              if length (scoresOf ta) > 0
                              then (totalWeightedScore
                                      + average (scoresOf ta) * (of_int (weightage ta) / 100),
                                    totalWeight + of_int (weightage ta) / 100)
                              else (totalWeightedScore, totalWeight))
                       (0, 0) templateAssessments
        in if snd totals > 0 then Math_round (fst totals / snd totals) else 0)"

section \<open>Trust score\<close>

text \<open>\<^verbatim>\<open>InterviewGateway.calculateTrustScore(proctorData)\<close>. The proctoring data are the record
  of the interview row: the list of face detections, the counters of tab switches and of
  fullscreen exits, and the list of suspicious activities; each may be missing.\<close>

record FaceDetection =
  detectedAt :: nat
  facesDetected :: int

record ProctorData =
  faceDetections :: "FaceDetection list option"
  tabSwitches :: "int option"
  fullscreenExits :: "int option"
  suspiciousActivity :: "string list option"

definition calculateTrustScore :: "ProctorData \<Rightarrow> int" where
  "calculateTrustScore proctorData =
     (let score0 = 100;
          detections = (case faceDetections proctorData of None \<Rightarrow> [] | Some l \<Rightarrow> l);
          multipleFaces = length (filter (\<lambda>fd. facesDetected fd > 1) detections);
          score1 = score0 - int multipleFaces * 5;
          score2 = score1 - (case tabSwitches proctorData of None \<Rightarrow> 0 | Some n \<Rightarrow> n) * 3;
          score3 = score2 - (case fullscreenExits proctorData of None \<Rightarrow> 0 | Some n \<Rightarrow> n) * 10;
          score4 = score3
                   - (case suspiciousActivity proctorData of None \<Rightarrow> 0 | Some l \<Rightarrow> int (length l))
                     * 15
      in max 0 (min 100 (Math_round (of_int score4))))"

section \<open>InterviewSessionManager: the registry of connections\<close>

text \<open>\<^verbatim>\<open>interface InterviewSession\<close> of the websocket layer: \<open>regId\<close> and \<open>regInterviewId\<close>
  are its \<^verbatim>\<open>id\<close> and \<^verbatim>\<open>interviewId\<close>. The registry is the \<^verbatim>\<open>Map\<close> \<^verbatim>\<open>sessions\<close>, which holds
  each session under its id and under \<^verbatim>\<open>`interview:${interviewId}`\<close>.\<close>

record RegistrySession =
  regId :: string
  regInterviewId :: string
  aiSessionId :: "string option"
  candidateSocketId :: string
  recruiterSocketIds :: "string list"
  isActive :: bool
  currentQuestionId :: "string option"
  currentQuestionText :: "string option"
  currentAssessmentId :: "string option"
  currentQuestionStartTime :: "nat option"
  regProgress :: Progress
  trustScore :: int
  createdAt :: nat

type_synonym Registry = "string \<rightharpoonup> RegistrySession"

definition getSession :: "Registry \<Rightarrow> string \<Rightarrow> error + RegistrySession" where
  "getSession reg sessionId =
     (case reg sessionId of None \<Rightarrow> Inl NotFound | Some session \<Rightarrow> Inr session)"

definition getSessionByInterviewId :: "Registry \<Rightarrow> string \<Rightarrow> RegistrySession option" where
  "getSessionByInterviewId reg ivId = reg (''interview:'' @ ivId)"

text \<open>\<^verbatim>\<open>updateSession(sessionId, updates)\<close>: \<open>updates\<close> is the effect of spreading the partial
  object over the session. The copy is stored under the session id and, when the entry of
  the interview key has this session id, under the interview key too.\<close>

definition updateSession ::
  "string \<Rightarrow> (RegistrySession \<Rightarrow> RegistrySession) \<Rightarrow> Registry \<Rightarrow> error + Registry" where
  "updateSession sessionId updates reg =
     (case getSession reg sessionId of
        Inl e \<Rightarrow> Inl e
      | Inr session \<Rightarrow>
          let updated = updates session;
              reg1 = reg(sessionId \<mapsto> updated)
          in case reg1 (''interview:'' @ regInterviewId session) of
               None \<Rightarrow> Inr reg1
             | Some interviewSession \<Rightarrow>
                 if regId interviewSession = sessionId
                 then Inr (reg1(''interview:'' @ regInterviewId session \<mapsto> updated))
                 else Inr reg1)"

text \<open>\<^verbatim>\<open>addRecruiterObserver\<close>: nothing happens when the socket id is already in the array;
  otherwise it is pushed and the session updated with the array.\<close>

definition addRecruiterObserver :: "string \<Rightarrow> string \<Rightarrow> Registry \<Rightarrow> error + Registry" where
  "addRecruiterObserver sessionId socketId reg =
     (case getSession reg sessionId of
        Inl e \<Rightarrow> Inl e
      | Inr session \<Rightarrow>
          if socketId \<notin> set (recruiterSocketIds session)
          then updateSession sessionId
                 (\<lambda>s. s\<lparr>recruiterSocketIds := recruiterSocketIds session @ [socketId]\<rparr>) reg
          else Inr reg)"

text \<open>\<^verbatim>\<open>createSession(interview, socketId)\<close> of the registry: \<open>now\<close> is \<^verbatim>\<open>Date.now()\<close> and
  \<open>found\<close> what \<^verbatim>\<open>prisma.template.findUnique\<close> returns.\<close>

definition createRegistrySession ::
  "nat \<Rightarrow> string \<Rightarrow> string \<Rightarrow> Template option \<Rightarrow> Registry \<Rightarrow> RegistrySession \<times> Registry" where
  "createRegistrySession now ivId socketId found reg =
     (let sessionId = ''session:'' @ ivId @ '':'' @ showNat now;
          session =
            \<lparr>regId = sessionId, regInterviewId = ivId, aiSessionId = None,
             candidateSocketId = socketId, recruiterSocketIds = [], isActive = False,
             currentQuestionId = None, currentQuestionText = None, currentAssessmentId = None,
             currentQuestionStartTime = None,
             regProgress =
               \<lparr>currentAssessment = 0,
                totalAssessments = (case found of None \<Rightarrow> 0 | Some t \<Rightarrow> length (assessments t)),
                currentQuestion = 0,
                totalQuestions =
                  (case found of
                     None \<Rightarrow> 0
                   | Some t \<Rightarrow> sum_list (map (\<lambda>ta. length (questionsOf ta)) (assessments t)))\<rparr>,
             trustScore = 100, createdAt = now\<rparr>
      in (session, reg(sessionId \<mapsto> session, ''interview:'' @ ivId \<mapsto> session)))"

section \<open>InterviewGateway: a candidate joins\<close>

text \<open>What \<^verbatim>\<open>handleJoinInterview\<close> emits to the client or to the room of the interview.\<close>

datatype Emitted =
    ErrorEvent string
  | CandidateJoined string
  | InterviewReady string

text \<open>\<^verbatim>\<open>handleJoinInterview(client, data)\<close>. \<open>lookup\<close> is the result of the query for the
  interview with the join token and \<open>templateLookup\<close> that of the template query inside
  \<^verbatim>\<open>createSession\<close> (\<open>None\<close>: Prisma throws); every exception is caught and reported as
  \<^verbatim>\<open>'Failed to join interview'\<close>. The result is the events emitted, the session id stored in
  \<^verbatim>\<open>client.data\<close>, and the registry.\<close>

definition handleJoinInterview ::
  "nat \<Rightarrow> string \<Rightarrow> string \<Rightarrow> InterviewRow option option \<Rightarrow> Template option option \<Rightarrow> Registry
     \<Rightarrow> Emitted list \<times> string option \<times> Registry" where
  "handleJoinInterview now clientId ivId lookup templateLookup reg =
     (case lookup of
        None \<Rightarrow> ([ErrorEvent ''Failed to join interview''], None, reg)
      | Some None \<Rightarrow> ([ErrorEvent ''Interview not found or invalid token''], None, reg)
      | Some (Some interview) \<Rightarrow>
          if status interview \<noteq> ''ONGOING'' \<and> status interview \<noteq> ''SCHEDULED''
          then ([ErrorEvent ''Interview is not available''], None, reg)
          else
            let joined =
                  (case getSessionByInterviewId reg ivId of
                     None \<Rightarrow>
                       (case templateLookup of
                          None \<Rightarrow> Inl DatabaseError
                        | Some found \<Rightarrow> Inr (createRegistrySession now ivId clientId found reg))
                   | Some session \<Rightarrow>
                       (case updateSession (regId session)
                               (\<lambda>s. s\<lparr>candidateSocketId := clientId\<rparr>) reg of
                          Inl e \<Rightarrow> Inl e
                        | Inr reg1 \<Rightarrow> Inr (session, reg1)))
            in case joined of
                 Inl e \<Rightarrow> ([ErrorEvent ''Failed to join interview''], None, reg)
               | Inr (session, reg1) \<Rightarrow>
                   ([CandidateJoined (rowCandidateName interview), InterviewReady (regId session)],
                    Some (regId session), reg1))"

section \<open>Proctoring events\<close>

text \<open>The columns of an interview row that proctoring reads and writes: \<^verbatim>\<open>status\<close>,
  \<^verbatim>\<open>proctorData\<close> and \<^verbatim>\<open>trustScore\<close>.\<close>

record ProctorRow =
  proctorStatus :: string
  proctorData :: "ProctorData option"
  rowTrustScore :: "int option"

text \<open>\<^verbatim>\<open>ProctorEventDto\<close>: the type is one of four literals, the payload \<^verbatim>\<open>data\<close> an object
  (\<^verbatim>\<open>@IsObject\<close>), here with numbers as the values of its properties.\<close>

datatype ProctorEventType = FaceDetectionEvent | TabSwitch | FullscreenExit | SuspiciousActivity

definition typeName :: "ProctorEventType \<Rightarrow> string" where
  "typeName t =
     (case t of
        FaceDetectionEvent \<Rightarrow> ''face-detection''
      | TabSwitch \<Rightarrow> ''tab-switch''
      | FullscreenExit \<Rightarrow> ''fullscreen-exit''
      | SuspiciousActivity \<Rightarrow> ''suspicious-activity'')"

datatype Severity = Low | Medium | High

record ProctorEventDto =
  eventType :: ProctorEventType
  eventSeverity :: Severity
  eventData :: "(string \<times> int) list"
  eventMessage :: string

text \<open>A JavaScript object is the list of its properties, read by name with \<open>map_of\<close>. The
  values that the argument \<^verbatim>\<open>data\<close> of \<^verbatim>\<open>updateProctorData\<close> can hold under a property: a
  number, a list of face detections, a list of strings, or an object.\<close>

datatype JsValue =
    JsNumber int
  | JsFaces "FaceDetection list"
  | JsStrings "string list"
  | JsObject "(string \<times> int) list"

text \<open>The merge of \<^verbatim>\<open>InterviewsService.updateProctorData\<close>, property by property:
  \<^verbatim>\<open>data.faceDetections || current.faceDetections\<close>, the two counters added with \<^verbatim>\<open>|| 0\<close> on
  both sides, and the two lists of suspicious activities spread into one.\<close>

definition mergeProctorData :: "ProctorData \<Rightarrow> (string \<times> JsValue) list \<Rightarrow> error + ProctorData" where
  "mergeProctorData current data =
     (case (case map_of data ''faceDetections'' of
              None \<Rightarrow> Inr (faceDetections current)
            | Some (JsFaces l) \<Rightarrow> Inr (Some l)
            | Some v \<Rightarrow> Inl IllTyped) of
        Inl e \<Rightarrow> Inl e
      | Inr faces \<Rightarrow>
     (case (case map_of data ''tabSwitches'' of
              None \<Rightarrow> Inr 0
            | Some (JsNumber k) \<Rightarrow> Inr k
            | Some v \<Rightarrow> Inl IllTyped) of
        Inl e \<Rightarrow> Inl e
      | Inr tabs \<Rightarrow>
     (case (case map_of data ''fullscreenExits'' of
              None \<Rightarrow> Inr 0
            | Some (JsNumber k) \<Rightarrow> Inr k
            | Some v \<Rightarrow> Inl IllTyped) of
        Inl e \<Rightarrow> Inl e
      | Inr exits \<Rightarrow>
     (case (case map_of data ''suspiciousActivity'' of
              None \<Rightarrow> Inr []
            | Some (JsStrings l) \<Rightarrow> Inr l
            | Some v \<Rightarrow> Inl IllTyped) of
        Inl e \<Rightarrow> Inl e
      | Inr activities \<Rightarrow>
          Inr \<lparr>faceDetections = faces,
               tabSwitches = Some ((case tabSwitches current of None \<Rightarrow> 0 | Some k \<Rightarrow> k) + tabs),
               fullscreenExits =
                 Some ((case fullscreenExits current of None \<Rightarrow> 0 | Some k \<Rightarrow> k) + exits),
               suspiciousActivity =
                 Some ((case suspiciousActivity current of None \<Rightarrow> [] | Some l \<Rightarrow> l)
                       @ activities)\<rparr>))))"

text \<open>\<^verbatim>\<open>InterviewsService.calculateTrustScore\<close>: the formula of the gateway's function without
  its defaults, so a missing list is a \<^verbatim>\<open>TypeError\<close> and a missing counter gives no number.\<close>

definition serviceTrustScore :: "ProctorData \<Rightarrow> error + int" where
  "serviceTrustScore pd =
     (case faceDetections pd of
        None \<Rightarrow> Inl TypeError
      | Some detections \<Rightarrow>
          (case tabSwitches pd of
             None \<Rightarrow> Inl IllTyped
           | Some tabs \<Rightarrow>
               (case fullscreenExits pd of
                  None \<Rightarrow> Inl IllTyped
                | Some exits \<Rightarrow>
                    (case suspiciousActivity pd of
                       None \<Rightarrow> Inl TypeError
                     | Some activities \<Rightarrow>
                         Inr (max 0 (min 100 (Math_round (of_int
                                (100 - int (length (filter (\<lambda>fd. facesDetected fd > 1) detections)) * 5
                                 - tabs * 3 - exits * 10 - int (length activities) * 15)))))))))"

text \<open>\<^verbatim>\<open>InterviewsService.updateProctorData(interviewId, data)\<close>: the interview must exist and
  be ongoing; the merged data and their trust score are written to the row.\<close>

definition updateProctorData ::
  "bool \<Rightarrow> string \<Rightarrow> (string \<times> JsValue) list \<Rightarrow> (string \<rightharpoonup> ProctorRow)
     \<Rightarrow> error + (string \<rightharpoonup> ProctorRow)" where
  "updateProctorData dbUp ivId data table =
     (if \<not> dbUp then Inl DatabaseError
      else
        case table ivId of
          None \<Rightarrow> Inl NotFound
        | Some interview \<Rightarrow>
            if proctorStatus interview \<noteq> ''ONGOING'' then Inl NotFound
            else
              let current =
                    (case proctorData interview of
                       None \<Rightarrow> \<lparr>faceDetections = Some [], tabSwitches = Some 0,
                                 fullscreenExits = Some 0, suspiciousActivity = Some []\<rparr>
                     | Some pd \<Rightarrow> pd)
              in case mergeProctorData current data of
                   Inl e \<Rightarrow> Inl e
                 | Inr updated \<Rightarrow>
                     (case serviceTrustScore updated of
                        Inl e \<Rightarrow> Inl e
                      | Inr t \<Rightarrow>
                          Inr (table(ivId \<mapsto> interview\<lparr>proctorData := Some updated,
                                                        rowTrustScore := Some t\<rparr>))))"

text \<open>What \<^verbatim>\<open>handleProctorEvent\<close> emits to the room of the interview.\<close>

datatype ProctorEmitted =
    ProctorAlert string string
  | TrustScoreUpdate int

text \<open>\<^verbatim>\<open>InterviewGateway.handleProctorEvent(client, data)\<close>. \<open>clientSession\<close> is
  \<^verbatim>\<open>client.data.sessionId\<close>. The update is called with the object \<^verbatim>\<open>{[data.type]: data.data}\<close>,
  whose one property is named by the type of the event. Every exception is caught and only
  logged. The result is the events emitted, the registry and the table.\<close>

definition handleProctorEvent ::
  "bool \<Rightarrow> string option \<Rightarrow> ProctorEventDto \<Rightarrow> Registry \<times> (string \<rightharpoonup> ProctorRow)
     \<Rightarrow> ProctorEmitted list \<times> Registry \<times> (string \<rightharpoonup> ProctorRow)" where
  "handleProctorEvent dbUp clientSession event state =
     (case state of (reg, table) \<Rightarrow>
        (case clientSession of
           None \<Rightarrow> ([], reg, table)
         | Some sessionId \<Rightarrow>
             (case getSession reg sessionId of
                Inl e \<Rightarrow> ([], reg, table)
              | Inr session \<Rightarrow>
                  (case updateProctorData dbUp (regInterviewId session)
                          [(typeName (eventType event), JsObject (eventData event))] table of
                     Inl e \<Rightarrow> ([], reg, table)
                   | Inr table1 \<Rightarrow>
                       let alert =
                             (if eventSeverity event = High
                              then [ProctorAlert (typeName (eventType event)) (eventMessage event)]
                              else [])
                       in case table1 (regInterviewId session) of
                            None \<Rightarrow> (alert, reg, table1)
                          | Some interview \<Rightarrow>
                              (case proctorData interview of
                                 None \<Rightarrow> (alert, reg, table1)
                               | Some pd \<Rightarrow>
                                   (case updateSession sessionId
                                           (\<lambda>s. s\<lparr>trustScore := calculateTrustScore pd\<rparr>) reg of
                                      Inl e \<Rightarrow> (alert, reg, table1)
                                    | Inr reg1 \<Rightarrow>
                                        (alert @ [TrustScoreUpdate (calculateTrustScore pd)],
                                         reg1, table1)))))))"

text \<open>A log of proctoring events handled one after another on one client: all that is
  emitted, and the state at the end.\<close>

fun handleProctorEvents ::
  "bool \<Rightarrow> string option \<Rightarrow> ProctorEventDto list \<Rightarrow> Registry \<times> (string \<rightharpoonup> ProctorRow)
     \<Rightarrow> ProctorEmitted list \<times> Registry \<times> (string \<rightharpoonup> ProctorRow)" where
  "handleProctorEvents dbUp clientSession [] state = ([], state)"
| "handleProctorEvents dbUp clientSession (event # events) state =
     (let first = handleProctorEvent dbUp clientSession event state;
          rest = handleProctorEvents dbUp clientSession events (snd first)
      in (fst first @ fst rest, snd rest))"

text \<open>The trust score of a log of events as the specification words it: 100, minus 5 for each
  face-detection event whose payload reports more than one face, minus 3 for each tab-switch
  event, minus 10 for each fullscreen-exit event, minus 15 for each suspicious-activity event,
  clamped to the range from 0 to 100.\<close>

definition claimedTrustScore :: "ProctorEventDto list \<Rightarrow> int" where
  "claimedTrustScore events =
     max 0 (min 100
       (100
        - 5 * int (length (filter (\<lambda>e. eventType e = FaceDetectionEvent
                                     \<and> (case map_of (eventData e) ''facesDetected'' of
                                          None \<Rightarrow> False
                                        | Some k \<Rightarrow> 1 < k)) events))
        - 3 * int (length (filter (\<lambda>e. eventType e = TabSwitch) events))
        - 10 * int (length (filter (\<lambda>e. eventType e = FullscreenExit) events))
        - 15 * int (length (filter (\<lambda>e. eventType e = SuspiciousActivity) events))))"

section \<open>Runs of the conversation\<close>

text \<open>The cursor of a context and the lexicographic order on cursors.\<close>

definition cursor :: "ConversationContext \<Rightarrow> nat \<times> nat" where
  "cursor context = (currentAssessmentIndex context, currentQuestionIndex context)"

definition cursorLe :: "nat \<times> nat \<Rightarrow> nat \<times> nat \<Rightarrow> bool" where
  "cursorLe c d = (fst c < fst d \<or> (fst c = fst d \<and> snd c \<le> snd d))"

definition cursorAt :: "string \<Rightarrow> Backend \<Rightarrow> nat \<times> nat" where
  "cursorAt sessionId st =
     (case sessionStore st sessionId of None \<Rightarrow> (0, 0) | Some context \<Rightarrow> cursor context)"

text \<open>A sequence of \<^verbatim>\<open>processResponse\<close> calls on one session, each with its answer and with
  what the collaborators reply during it: the result of every call with the state after it.
  Every call runs to its end before the next begins; calls that overlap are the subject of
  the section on overlapping calls.\<close>

fun turns ::
  "string \<Rightarrow> (Collaborators \<times> string) list \<Rightarrow> Backend \<Rightarrow> ((error + InterviewTurn) \<times> Backend) list" where
  "turns sessionId [] st = []"
| "turns sessionId (call # calls) st =
     (let after = processResponse (fst call) sessionId (snd call) st
      in after # turns sessionId calls (snd after))"

text \<open>The plan invariant of the data model: every assessment has at least one question.
  A cursor is in the plan when it points at a question or stands at the end.\<close>

definition planWellFormed :: "Template \<Rightarrow> bool" where
  "planWellFormed t = list_all (\<lambda>ta. questionsOf ta \<noteq> []) (assessments t)"

definition cursorInPlan :: "ConversationContext \<Rightarrow> bool" where
  "cursorInPlan context =
     (if currentAssessmentIndex context < length (assessments (template context))
      then currentQuestionIndex context
             < length (questionsOf (assessments (template context) ! currentAssessmentIndex context))
      else currentAssessmentIndex context = length (assessments (template context))
           \<and> currentQuestionIndex context = 0)"

definition atPlanEnd :: "string \<Rightarrow> Backend \<Rightarrow> bool" where
  "atPlanEnd sessionId st =
     (case sessionStore st sessionId of
        None \<Rightarrow> False
      | Some context \<Rightarrow> currentAssessmentIndex context = length (assessments (template context)))"

definition reportsComplete :: "error + InterviewTurn \<Rightarrow> bool" where
  "reportsComplete result = (case result of Inl e \<Rightarrow> False | Inr t \<Rightarrow> isComplete t)"

text \<open>The highest follow-up counter recorded in a context is bounded by \<open>n\<close>.\<close>

definition followUpsWithin :: "nat \<Rightarrow> ConversationContext \<Rightarrow> bool" where
  "followUpsWithin n context = list_all (\<lambda>(questionId, r). followUpsAsked r \<le> n) (responses context)"

text \<open>The states the backend reaches when the calls of the orchestrator run one at a time:
  the session store is empty when the server starts, and the orchestrator changes it by
  \<^verbatim>\<open>startInterview\<close>, \<^verbatim>\<open>processResponse\<close> and \<^verbatim>\<open>completeInterview\<close>, each run to its end;
  other services change the tables only.\<close>

inductive reachable :: "Backend \<Rightarrow> bool" where
  boot: "sessionStore st = Map.empty \<Longrightarrow> reachable st"
| tables: "reachable st \<Longrightarrow> sessionStore st' = sessionStore st \<Longrightarrow> reachable st'"
| started: "reachable st \<Longrightarrow> reachable (snd (startInterview env now ivId st))"
| responded: "reachable st \<Longrightarrow> reachable (snd (processResponse env sessionId answer st))"
| completed: "reachable st \<Longrightarrow> reachable (snd (completeInterview env sessionId st))"

section \<open>Overlapping calls of \<^verbatim>\<open>processResponse\<close>\<close>

text \<open>
  \<^verbatim>\<open>processResponse\<close> is an \<^verbatim>\<open>async\<close> function and nothing serialises the calls on one
  session: while a call awaits a collaborator, another call on the same session runs on the
  same context object. The model below runs a call in steps, each the code between two awaits
  on a collaborator that the model tells apart: from the start to the call of the evaluator,
  from the evaluator's reply to the request for a follow-up text or to the save in the
  database, and from there to the end. The awaits inside the last step (the lookup of the
  interview and the adaptation of the next question) and the awaits of promises that are
  already resolved are not points of interleaving here, so the model has fewer interleavings
  than the code and no other.

  The entries of \<^verbatim>\<open>context.responses\<close> are objects, and \<^verbatim>\<open>existingResponse\<close> is either the
  object stored under the question id or a new object; \<^verbatim>\<open>existingResponse.followUpsAsked++\<close>
  changes the object that every holder sees. So the entries live in a heap, \<open>entryRefs\<close> maps
  a question id to the address of its entry, and \<open>sharedContext\<close> holds the other fields of
  the context (its own \<open>responses\<close> field is not used).
\<close>

record LiveSession =
  sharedContext :: ConversationContext
  entryRefs :: "(string \<times> nat) list"
  entryHeap :: "ResponseEntry list"

text \<open>The context as a value: every reference replaced by the entry it points to.\<close>

definition snapshot :: "LiveSession \<Rightarrow> ConversationContext" where
  "snapshot l =
     (sharedContext l)\<lparr>responses := map (\<lambda>(questionId, a). (questionId, entryHeap l ! a))
                                        (entryRefs l)\<rparr>"

text \<open>A context value as a live session: one object for each entry.\<close>

definition load :: "ConversationContext \<Rightarrow> LiveSession" where
  "load context =
     \<lparr>sharedContext = context\<lparr>responses := []\<rparr>,
      entryRefs = zip (map fst (responses context)) [0 ..< length (responses context)],
      entryHeap = map snd (responses context)\<rparr>"

text \<open>\<^verbatim>\<open>existingResponse\<close>: the stored object, by its address, or a new object that only the
  call holds.\<close>

datatype EntryRef = Stored nat | Fresh ResponseEntry

definition deref :: "LiveSession \<Rightarrow> EntryRef \<Rightarrow> ResponseEntry" where
  "deref l ref = (case ref of Stored a \<Rightarrow> entryHeap l ! a | Fresh e \<Rightarrow> e)"

text \<open>\<^verbatim>\<open>context.responses[questionId] = existingResponse\<close>, after \<open>change\<close> has been applied to
  the object (the increment of \<^verbatim>\<open>followUpsAsked\<close>, or nothing). A new object gets the next
  address.\<close>

definition storeEntry ::
  "string \<Rightarrow> EntryRef \<Rightarrow> (ResponseEntry \<Rightarrow> ResponseEntry) \<Rightarrow> LiveSession \<Rightarrow> LiveSession" where
  "storeEntry questionId ref change l =
     (case ref of
        Stored a \<Rightarrow>
          l\<lparr>entryHeap := (entryHeap l)[a := change (entryHeap l ! a)],
            entryRefs := assign questionId a (entryRefs l)\<rparr>
      | Fresh e \<Rightarrow>
          l\<lparr>entryHeap := entryHeap l @ [change e],
            entryRefs := assign questionId (length (entryHeap l)) (entryRefs l)\<rparr>)"

text \<open>Where a call waits, with the local variables it resumes with.\<close>

datatype Pending =
    AwaitEvaluation Collaborators string Question
  | AwaitFollowUp Collaborators string Question EvaluationResult EntryRef
  | AwaitSave Collaborators string Question EvaluationResult

text \<open>One session with the calls in flight: the context object, the backend (of which the
  calls below read and write the tables only), the calls that wait (by a call number) and the
  results of the calls that have returned or thrown.\<close>

record LiveState =
  liveSession :: LiveSession
  liveBackend :: Backend
  pendingCalls :: "(nat \<times> Pending) list"
  returnedTurns :: "(nat \<times> (error + InterviewTurn)) list"

definition returnTurn :: "nat \<Rightarrow> error + InterviewTurn \<Rightarrow> LiveState \<Rightarrow> LiveState" where
  "returnTurn call result s = s\<lparr>returnedTurns := returnedTurns s @ [(call, result)]\<rparr>"

definition suspend :: "nat \<Rightarrow> Pending \<Rightarrow> LiveState \<Rightarrow> LiveState" where
  "suspend call p s = s\<lparr>pendingCalls := pendingCalls s @ [(call, p)]\<rparr>"

definition withShared :: "ConversationContext \<Rightarrow> LiveState \<Rightarrow> LiveState" where
  "withShared context s = s\<lparr>liveSession := (liveSession s)\<lparr>sharedContext := context\<rparr>\<rparr>"

text \<open>The start of a call, up to the call of the evaluator: the answer is pushed to the
  history and the current question read.\<close>

definition startCall :: "nat \<Rightarrow> Collaborators \<Rightarrow> string \<Rightarrow> LiveState \<Rightarrow> LiveState" where
  "startCall call env answer s =
     (let context = pushMessage User answer (sharedContext (liveSession s));
          s1 = withShared context s
      in case getCurrentQuestion context of
           None \<Rightarrow> returnTurn call (Inr handleInterviewComplete) s1
         | Some currentQ \<Rightarrow> suspend call (AwaitEvaluation env answer currentQ) s1)"

text \<open>From the evaluator's reply to the next collaborator: the entry is looked up and the
  follow-up policy asked with the counter the entry has now. With a follow-up the call waits
  for the follow-up text, holding the entry; without, the entry is stored and the call waits
  for the database.\<close>

definition afterEvaluation ::
  "nat \<Rightarrow> Collaborators \<Rightarrow> string \<Rightarrow> Question \<Rightarrow> LiveState \<Rightarrow> LiveState" where
  "afterEvaluation call env answer currentQ s =
     (let evaluation = evaluateResponse currentQ answer (evaluatorReply env);
          existingResponse =
            (case map_of (entryRefs (liveSession s)) (qid currentQ) of
               Some a \<Rightarrow> Stored a
             | None \<Rightarrow>
                 Fresh \<lparr>responseText = answer, responseScore = score evaluation,
                        followUpsAsked = 0,
                        responseEvaluation = generateEvaluationText evaluation\<rparr>)
      in if needsFollowUp evaluation (followUpsAsked (deref (liveSession s) existingResponse))
              (length answer)
         then suspend call (AwaitFollowUp env answer currentQ evaluation existingResponse) s
         else suspend call (AwaitSave env answer currentQ evaluation)
                (s\<lparr>liveSession :=
                     storeEntry (qid currentQ) existingResponse (\<lambda>e. e) (liveSession s)\<rparr>))"

text \<open>From the follow-up text to the end of the call: the counter of the held entry is
  incremented, the entry stored, the follow-up pushed to the history. The progress of the
  returned turn reads the cursor and the template only.\<close>

definition afterFollowUpText ::
  "nat \<Rightarrow> Collaborators \<Rightarrow> string \<Rightarrow> Question \<Rightarrow> EvaluationResult \<Rightarrow> EntryRef
     \<Rightarrow> LiveState \<Rightarrow> LiveState" where
  "afterFollowUpText call env answer currentQ evaluation existingResponse s =
     (case followUpReply env of
        None \<Rightarrow> returnTurn call (Inl ServiceUnavailable) s
      | Some followUpText \<Rightarrow>
          let l1 = storeEntry (qid currentQ) existingResponse
                     (\<lambda>e. e\<lparr>followUpsAsked := followUpsAsked e + 1\<rparr>) (liveSession s);
              l2 = l1\<lparr>sharedContext := pushMessage Assistant followUpText (sharedContext l1)\<rparr>
          in returnTurn call
               (Inr (turnOf answer evaluation (Some (currentQ\<lparr>qtext := followUpText\<rparr>)) False
                       (sharedContext l2)))
               (s\<lparr>liveSession := l2\<rparr>))"

text \<open>From the save in the database to the end of the call: the cursor of the shared context
  is moved and the next question announced, as in \<open>advanceBranch\<close> after the entry is stored.\<close>

definition afterSave ::
  "nat \<Rightarrow> Collaborators \<Rightarrow> string \<Rightarrow> Question \<Rightarrow> EvaluationResult \<Rightarrow> LiveState \<Rightarrow> LiveState" where
  "afterSave call env answer currentQ evaluation s =
     (let context = sharedContext (liveSession s)
      in case saveResponseToDatabase env (interviewId context) currentQ answer evaluation
                (liveBackend s) of
           Inl e \<Rightarrow> returnTurn call (Inl e) s
         | Inr st1 \<Rightarrow>
             (case moveToNextQuestion context of
                Inl e \<Rightarrow> returnTurn call (Inl e) (s\<lparr>liveBackend := st1\<rparr>)
              | Inr (finished, context2) \<Rightarrow>
                  if finished
                  then returnTurn call (Inr (turnOf answer evaluation None True context2))
                         (withShared context2 (s\<lparr>liveBackend := st1\<rparr>))
                  else
                    (case getCurrentQuestion context2 of
                       None \<Rightarrow>
                         returnTurn call (Inr (turnOf answer evaluation None False context2))
                           (withShared context2 (s\<lparr>liveBackend := st1\<rparr>))
                     | Some nextQuestionData \<Rightarrow>
                         (case announceNext env answer evaluation nextQuestionData context2 st1 of
                            (result, context3, st2) \<Rightarrow>
                              returnTurn call result
                                (withShared context3 (s\<lparr>liveBackend := st2\<rparr>))))))"

text \<open>A call that waits is resumed when its collaborator replies.\<close>

definition resumeCall :: "nat \<Rightarrow> LiveState \<Rightarrow> LiveState" where
  "resumeCall call s =
     (case map_of (pendingCalls s) call of
        None \<Rightarrow> s
      | Some p \<Rightarrow>
          let s1 = s\<lparr>pendingCalls := filter (\<lambda>(c, p). c \<noteq> call) (pendingCalls s)\<rparr>
          in case p of
               AwaitEvaluation env answer currentQ \<Rightarrow> afterEvaluation call env answer currentQ s1
             | AwaitFollowUp env answer currentQ evaluation existingResponse \<Rightarrow>
                 afterFollowUpText call env answer currentQ evaluation existingResponse s1
             | AwaitSave env answer currentQ evaluation \<Rightarrow>
                 afterSave call env answer currentQ evaluation s1)"

text \<open>A schedule: the calls that arrive, each with its answer and the replies it will get,
  and the calls that are resumed, in the order in which the event loop runs them.\<close>

datatype Action = Start nat Collaborators string | Resume nat

definition act :: "LiveState \<Rightarrow> Action \<Rightarrow> LiveState" where
  "act s action =
     (case action of
        Start call env answer \<Rightarrow> startCall call env answer s
      | Resume call \<Rightarrow> resumeCall call s)"

definition runLive :: "Action list \<Rightarrow> LiveState \<Rightarrow> LiveState" where
  "runLive schedule s = foldl act s schedule"

definition liveStart :: "ConversationContext \<Rightarrow> Backend \<Rightarrow> LiveState" where
  "liveStart context st =
     \<lparr>liveSession = load context, liveBackend = st, pendingCalls = [], returnedTurns = []\<rparr>"

text \<open>What the session records and what the calls returned: the follow-up counter of every
  entry, and for every call the id of the question it asked next without moving on.\<close>

definition recordedFollowUps :: "LiveState \<Rightarrow> (string \<times> nat) list" where
  "recordedFollowUps s =
     map (\<lambda>(questionId, r). (questionId, followUpsAsked r)) (responses (snapshot (liveSession s)))"

definition askedNext :: "LiveState \<Rightarrow> (nat \<times> (string \<times> string) option) list" where
  "askedNext s =
     map (\<lambda>(call, result).
            (call, case result of
                     Inl e \<Rightarrow> None
                   | Inr t \<Rightarrow> map_option (\<lambda>q. (qid q, qtext q)) (nextQuestion t)))
         (returnedTurns s)"

section \<open>Example sessions\<close>

text \<open>A plan with one assessment of weight 100 and three questions; an interview \<open>i\<close> on it;
  the backend at start-up; the session that \<^verbatim>\<open>startInterview\<close> creates at clock value 1; the
  state after a short first answer scored 40 (a follow-up is asked) and after a second, long
  answer to the same question scored 90.\<close>

definition exampleQuestion :: "string \<Rightarrow> Question" where
  "exampleQuestion i =
     \<lparr>qid = i, qtext = ''Why?'', qtype = ''open'', keyPoints = [], timeLimit = None, qorder = 0\<rparr>"

definition examplePlan :: Template where
  "examplePlan =
     \<lparr>jobTitle = ''dev'', jobDescription = None,
      assessments =
        [\<lparr>assessmentId = ''a1'', weightage = 100,
          assessment = \<lparr>assessmentName = ''A'',
                        questions = Some [exampleQuestion ''q1'', exampleQuestion ''q2'',
                                          exampleQuestion ''q3'']\<rparr>\<rparr>]\<rparr>"

definition exampleInterview :: "Template \<Rightarrow> InterviewRow" where
  "exampleInterview t =
     \<lparr>status = ''ONGOING'', rowTemplate = t, rowCandidateName = ''Ada'',
      rowCandidateEmail = ''ada@example.org'', rowOverallScore = None, rowScoreBreakdown = None,
      aiEvaluation = None, rowRecommendation = None\<rparr>"

definition exampleBoot :: Backend where
  "exampleBoot =
     \<lparr>sessionStore = Map.empty, interviewTable = [''i'' \<mapsto> exampleInterview examplePlan],
      responseTable = Map.empty\<rparr>"

definition scored :: "int \<Rightarrow> EvaluationResult" where
  "scored s =
     \<lparr>score = s, strengths = [], weaknesses = [], recommendation = Maybe, reasoning = ''ok''\<rparr>"

definition exampleReplies :: "EvaluationResult option \<Rightarrow> Collaborators" where
  "exampleReplies reply =
     \<lparr>evaluatorReply = reply, followUpReply = Some ''More?'', transitionReply = None,
      adaptReply = None, openingReply = Some ''Hello'', summaryReply = None, databaseUp = True\<rparr>"

definition exampleSid :: string where
  "exampleSid = ''interview:i:1''"

definition exampleStarted :: Backend where
  "exampleStarted = snd (startInterview (exampleReplies None) 1 ''i'' exampleBoot)"

definition longAnswer :: string where
  "longAnswer = replicate 50 CHR ''x''"

definition exampleContext :: ConversationContext where
  "exampleContext =
     \<lparr>interviewId = ''i'', template = examplePlan, currentAssessmentIndex = 0,
      currentQuestionIndex = 0,
      conversationHistory = [\<lparr>role = Assistant, content = ''Hello''\<rparr>,
                             \<lparr>role = Assistant, content = ''Why?''\<rparr>],
      candidateName = ''Ada'', candidateEmail = ''ada@example.org'', responses = []\<rparr>"

definition afterFollowUp :: Backend where
  "afterFollowUp =
     snd (processResponse (exampleReplies (Some (scored 40))) exampleSid ''short'' exampleStarted)"

definition followedUpContext :: ConversationContext where
  "followedUpContext =
     exampleContext
       \<lparr>conversationHistory := conversationHistory exampleContext
           @ [\<lparr>role = User, content = ''short''\<rparr>, \<lparr>role = Assistant, content = ''More?''\<rparr>],
        responses := [(''q1'', \<lparr>responseText = ''short'', responseScore = 40, followUpsAsked = 1,
                              responseEvaluation = generateEvaluationText (scored 40)\<rparr>)]\<rparr>"

definition afterSecondAnswer :: Backend where
  "afterSecondAnswer =
     snd (processResponse (exampleReplies (Some (scored 90))) exampleSid longAnswer afterFollowUp)"

text \<open>A plan with two assessments, of weight 80 with one question and of weight 20 with
  three.\<close>

definition weightedPlan :: Template where
  "weightedPlan =
     \<lparr>jobTitle = ''dev'', jobDescription = None,
      assessments =
        [\<lparr>assessmentId = ''a1'', weightage = 80,
          assessment = \<lparr>assessmentName = ''A'', questions = Some [exampleQuestion ''q1'']\<rparr>\<rparr>,
         \<lparr>assessmentId = ''a2'', weightage = 20,
          assessment = \<lparr>assessmentName = ''B'',
                        questions = Some [exampleQuestion ''q2'', exampleQuestion ''q3'',
                                          exampleQuestion ''q4'']\<rparr>\<rparr>]\<rparr>"

text \<open>A recorded long answer with a given score, its row in the response table, and one
  exchange of a long answer and the next question.\<close>

definition exampleEntry :: "int \<Rightarrow> ResponseEntry" where
  "exampleEntry s =
     \<lparr>responseText = longAnswer, responseScore = s, followUpsAsked = 0,
      responseEvaluation = generateEvaluationText (scored s)\<rparr>"

definition exampleRow :: "string \<Rightarrow> int \<Rightarrow> ResponseRow" where
  "exampleRow aid s =
     \<lparr>rowAssessmentId = aid, rowQuestionText = ''Why?'', rowResponseText = longAnswer,
      rowScore = s, rowEvaluation = generateEvaluationText (scored s), rowTimeSpent = 120,
      rowOrder = 0\<rparr>"

definition exchange :: "ChatMessage list" where
  "exchange = [\<lparr>role = User, content = longAnswer\<rparr>, \<lparr>role = Assistant, content = ''Why?''\<rparr>]"

text \<open>The example session after three long answers scored 80 each.\<close>

definition uniformContext :: ConversationContext where
  "uniformContext =
     exampleContext
       \<lparr>currentAssessmentIndex := 1, currentQuestionIndex := 0,
        conversationHistory := conversationHistory exampleContext @ exchange @ exchange
                                 @ [\<lparr>role = User, content = longAnswer\<rparr>],
        responses := [(''q1'', exampleEntry 80), (''q2'', exampleEntry 80),
                      (''q3'', exampleEntry 80)]\<rparr>"

definition uniformState :: Backend where
  "uniformState =
     \<lparr>sessionStore = [exampleSid \<mapsto> uniformContext],
      interviewTable = [''i'' \<mapsto> exampleInterview examplePlan],
      responseTable = [(''i'', ''q1'') \<mapsto> exampleRow ''a1'' 80,
                       (''i'', ''q2'') \<mapsto> exampleRow ''a1'' 80,
                       (''i'', ''q3'') \<mapsto> exampleRow ''a1'' 80]\<rparr>"

text \<open>A session on the plan with weights 80 and 20 after four long answers: 100 for the one
  question of the first assessment, 50 for each of the three questions of the second.\<close>

definition weightedContext :: ConversationContext where
  "weightedContext =
     exampleContext
       \<lparr>template := weightedPlan, currentAssessmentIndex := 2, currentQuestionIndex := 0,
        conversationHistory := conversationHistory exampleContext @ exchange @ exchange @ exchange
                                 @ [\<lparr>role = User, content = longAnswer\<rparr>],
        responses := [(''q1'', exampleEntry 100), (''q2'', exampleEntry 50),
                      (''q3'', exampleEntry 50), (''q4'', exampleEntry 50)]\<rparr>"

definition weightedState :: Backend where
  "weightedState =
     \<lparr>sessionStore = [exampleSid \<mapsto> weightedContext],
      interviewTable = [''i'' \<mapsto> exampleInterview weightedPlan],
      responseTable = [(''i'', ''q1'') \<mapsto> exampleRow ''a1'' 100,
                       (''i'', ''q2'') \<mapsto> exampleRow ''a2'' 50,
                       (''i'', ''q3'') \<mapsto> exampleRow ''a2'' 50,
                       (''i'', ''q4'') \<mapsto> exampleRow ''a2'' 50]\<rparr>"

text \<open>The summary that \<^verbatim>\<open>completeInterview\<close> returns for it when the narrative call fails.\<close>

definition uniformSummary :: InterviewSummary where
  "uniformSummary =
     \<lparr>summaryInterviewId = ''i'', overallScore = 80, scoreBreakdown = [(''a1'', 80)],
      summaryEvaluation = ''Summary generation failed'',
      summaryStrengths = [''No specific strengths identified''],
      summaryWeaknesses = [''No major weaknesses identified''],
      summaryRecommendation = Maybe, insights = [''Continue evaluation process'']\<rparr>"

text \<open>The state of the example session after the follow-up and the second answer.\<close>

definition secondAnswerState :: Backend where
  "secondAnswerState =
     \<lparr>sessionStore =
        [exampleSid \<mapsto>
           followedUpContext
             \<lparr>currentQuestionIndex := 1,
              conversationHistory := conversationHistory followedUpContext
                @ [\<lparr>role = User, content = longAnswer\<rparr>, \<lparr>role = Assistant, content = ''Why?''\<rparr>]\<rparr>],
      interviewTable = [''i'' \<mapsto> exampleInterview examplePlan],
      responseTable = [(''i'', ''q1'') \<mapsto> exampleRow ''a1'' 90]\<rparr>"

text \<open>The example session with no call in flight. Collaborators whose database is down, with
  an evaluation of 80. Three schedules: a long answer whose save fails, then three short
  answers that overlap; the same four calls one at a time; and two short first answers that
  overlap.\<close>

definition exampleLive :: LiveState where
  "exampleLive = liveStart exampleContext exampleStarted"

definition failedSave :: Collaborators where
  "failedSave = (exampleReplies (Some (scored 80)))\<lparr>databaseUp := False\<rparr>"

definition overlappingAnswers :: "Action list" where
  "overlappingAnswers =
     [Start 0 failedSave longAnswer, Resume 0, Resume 0,
      Start 1 (exampleReplies (Some (scored 80))) ''short'',
      Start 2 (exampleReplies (Some (scored 80))) ''short'',
      Start 3 (exampleReplies (Some (scored 80))) ''short'',
      Resume 1, Resume 2, Resume 3,
      Resume 1, Resume 2, Resume 3]"

definition serialAnswers :: "Action list" where
  "serialAnswers =
     [Start 0 failedSave longAnswer, Resume 0, Resume 0,
      Start 1 (exampleReplies (Some (scored 80))) ''short'', Resume 1, Resume 1,
      Start 2 (exampleReplies (Some (scored 80))) ''short'', Resume 2, Resume 2,
      Start 3 (exampleReplies (Some (scored 80))) ''short'', Resume 3, Resume 3]"

definition overlappingFirstAnswers :: "Action list" where
  "overlappingFirstAnswers =
     [Start 0 (exampleReplies (Some (scored 40))) ''short'',
      Start 1 (exampleReplies (Some (scored 40))) ''short'',
      Resume 0, Resume 1,
      Resume 0, Resume 1]"

definition overlappingSecondAnswers :: "Action list" where
  "overlappingSecondAnswers =
     [Start 0 failedSave longAnswer, Resume 0, Resume 0,
      Start 1 (exampleReplies (Some (scored 40))) ''short'',
      Start 2 (exampleReplies (Some (scored 40))) ''short'',
      Resume 1, Resume 2,
      Resume 1, Resume 2]"

text \<open>Proctoring: the row of interview \<open>i\<close> before any event; an event of a given type of
  medium severity with the payload \<^verbatim>\<open>{count: 1}\<close>; the log of two tab switches and one
  fullscreen exit; and the proctoring data without and with these three events counted.\<close>

definition proctorTable :: "string \<rightharpoonup> ProctorRow" where
  "proctorTable =
     [''i'' \<mapsto> \<lparr>proctorStatus = ''ONGOING'', proctorData = None, rowTrustScore = None\<rparr>]"

definition proctorEvent :: "ProctorEventType \<Rightarrow> ProctorEventDto" where
  "proctorEvent t =
     \<lparr>eventType = t, eventSeverity = Medium, eventData = [(''count'', 1)],
      eventMessage = ''event''\<rparr>"

definition proctorLog :: "ProctorEventDto list" where
  "proctorLog = [proctorEvent TabSwitch, proctorEvent TabSwitch, proctorEvent FullscreenExit]"

definition nothingCounted :: ProctorData where
  "nothingCounted =
     \<lparr>faceDetections = Some [], tabSwitches = Some 0, fullscreenExits = Some 0,
      suspiciousActivity = Some []\<rparr>"

definition eventsCounted :: ProctorData where
  "eventsCounted =
     \<lparr>faceDetections = Some [], tabSwitches = Some 2, fullscreenExits = Some 1,
      suspiciousActivity = Some []\<rparr>"

text \<open>A registry with one session, created when the candidate joined interview \<open>i\<close> on
  socket \<open>socketA\<close> at clock value 1; the same registry with the observer \<open>socketR\<close>.\<close>

definition exampleRegistry :: Registry where
  "exampleRegistry = snd (createRegistrySession 1 ''i'' ''socketA'' (Some examplePlan) Map.empty)"

definition exampleRegistrySession :: RegistrySession where
  "exampleRegistrySession = fst (createRegistrySession 1 ''i'' ''socketA'' (Some examplePlan) Map.empty)"

definition observedRegistry :: Registry where
  "observedRegistry =
     exampleRegistry
       (regId exampleRegistrySession \<mapsto> exampleRegistrySession\<lparr>recruiterSocketIds := [''socketR'']\<rparr>,
        ''interview:i'' \<mapsto> exampleRegistrySession\<lparr>recruiterSocketIds := [''socketR'']\<rparr>)"

section \<open>Properties of the follow-up policy\<close>

lemma startsWith_iff: "startsWith s t \<longleftrightarrow> (\<exists>r. s = t @ r)"
  by (induction s t rule: startsWith.induct) auto

lemma includes_iff: "includesStr s t \<longleftrightarrow> (\<exists>p r. s = p @ t @ r)"
proof (induction s)
  case Nil
  then show ?case by auto
next
  case (Cons c s)
  show ?case
  proof
    assume "includesStr (c # s) t"
    then consider "startsWith (c # s) t" | "includesStr s t" by auto
    then show "\<exists>p r. c # s = p @ t @ r"
    proof cases
      case 1
      then obtain r where "c # s = t @ r" by (auto simp: startsWith_iff)
      then have "c # s = [] @ t @ r" by simp
      then show ?thesis by blast
    next
      case 2
      then obtain p r where "s = p @ t @ r" using Cons.IH by blast
      then have "c # s = (c # p) @ t @ r" by simp
      then show ?thesis by blast
    qed
  next
    assume "\<exists>p r. c # s = p @ t @ r"
    then obtain p r where pr: "c # s = p @ t @ r" by blast
    show "includesStr (c # s) t"
    proof (cases p)
      case Nil
      with pr have "startsWith (c # s) t" by (auto simp: startsWith_iff)
      then show ?thesis by simp
    next
      case (Cons d p')
      with pr have "s = p' @ t @ r" by simp
      then have "includesStr s t" using Cons.IH by blast
      then show ?thesis by simp
    qed
  qed
qed


lemma needsFollowUp_iff:
  "needsFollowUp ev n len \<longleftrightarrow>
     n < 1 \<and> (score ev < 50 \<or> len < 50
              \<or> (\<exists>w \<in> set (weaknesses ev). \<exists>t \<in> {''unclear'', ''vague'', ''specific''}.
                    \<exists>p r. toLowerCase w = p @ t @ r))"
  unfolding needsFollowUp_def list_ex_iff includes_iff by auto

text \<open>
  \<^bold>\<open>C3.\<close> The follow-up policy: with two or more follow-ups already asked the answer is no;
  with none asked and a score under 50, or an answer shorter than 50 characters, or a weakness
  that contains \<open>unclear\<close>, \<open>vague\<close> or \<open>specific\<close> in any letter case, the answer is yes; in
  every other case the answer is no.
\<close>

theorem needsFollowUp_policy:
  "(2 \<le> n \<longrightarrow> \<not> needsFollowUp ev n len)
   \<and> (n < 1 \<and> (score ev < 50 \<or> len < 50
                \<or> (\<exists>w \<in> set (weaknesses ev). \<exists>t \<in> {''unclear'', ''vague'', ''specific''}.
                      \<exists>p r. toLowerCase w = p @ t @ r))
        \<longrightarrow> needsFollowUp ev n len)
   \<and> (\<not> 2 \<le> n
        \<and> \<not> (n < 1 \<and> (score ev < 50 \<or> len < 50
                \<or> (\<exists>w \<in> set (weaknesses ev). \<exists>t \<in> {''unclear'', ''vague'', ''specific''}.
                      \<exists>p r. toLowerCase w = p @ t @ r)))
        \<longrightarrow> \<not> needsFollowUp ev n len)"
  unfolding needsFollowUp_iff by auto

theorem needsFollowUp_policy_witness:
  "needsFollowUp (scored 90\<lparr>weaknesses := [''Too VAGUE'']\<rparr>) 0 60
   \<and> \<not> needsFollowUp (scored 90\<lparr>weaknesses := [''Too VAGUE'']\<rparr>) 2 60
   \<and> \<not> needsFollowUp (scored 90) 0 60"
proof -
  let ?ev = "scored 90\<lparr>weaknesses := [''Too VAGUE'']\<rparr>"
  have "includesStr (toLowerCase ''Too VAGUE'') ''vague''"
    by (simp add: toLowerCase_def lowerChar_def)
  then have tok: "\<exists>w \<in> set (weaknesses ?ev). \<exists>t \<in> {''unclear'', ''vague'', ''specific''}.
                    \<exists>p r. toLowerCase w = p @ t @ r"
    unfolding includes_iff by (simp add: scored_def)
  have none: "\<not> (\<exists>w \<in> set (weaknesses (scored 90)). \<exists>t \<in> {''unclear'', ''vague'', ''specific''}.
                    \<exists>p r. toLowerCase w = p @ t @ r)"
    by (simp add: scored_def)
  have sc: "\<not> score (scored 90) < 50" by (simp add: scored_def)
  have a: "needsFollowUp ?ev 0 60"
    using needsFollowUp_policy [of 0 ?ev 60] tok by blast
  have b: "\<not> needsFollowUp ?ev 2 60"
    using needsFollowUp_policy [of 2 ?ev 60] by simp
  have c: "\<not> needsFollowUp (scored 90) 0 60"
    using needsFollowUp_policy [of 0 "scored 90" 60] none sc by simp
  from a b c show ?thesis by blast
qed


section \<open>Properties of the trust score\<close>

lemma Math_round_of_int: "Math_round (of_int x) = x"
  unfolding Math_round_def by linarith

text \<open>
  The formula alone, on the proctoring data that \<^verbatim>\<open>calculateTrustScore\<close> is given: 100 minus 5
  for each face detection that reports more than one face, minus 3 for each tab switch
  counted, minus 10 for each fullscreen exit counted, minus 15 for each suspicious activity,
  clamped to the range from 0 to 100 (a missing list or counter counts as none). How the
  events reach these data is the subject of the last section.
\<close>

lemma calculateTrustScore_formula:
  "calculateTrustScore pd =
     max 0 (min 100
       (100
        - 5 * int (length (filter (\<lambda>fd. 1 < facesDetected fd)
                     (case faceDetections pd of None \<Rightarrow> [] | Some l \<Rightarrow> l)))
        - 3 * (case tabSwitches pd of None \<Rightarrow> 0 | Some k \<Rightarrow> k)
        - 10 * (case fullscreenExits pd of None \<Rightarrow> 0 | Some k \<Rightarrow> k)
        - 15 * (case suspiciousActivity pd of None \<Rightarrow> 0 | Some l \<Rightarrow> int (length l))))
   \<and> 0 \<le> calculateTrustScore pd \<and> calculateTrustScore pd \<le> 100
   \<and> calculateTrustScore \<lparr>faceDetections = Some [], tabSwitches = Some 2,
        fullscreenExits = Some 1, suspiciousActivity = Some []\<rparr> = 84"
  by (simp add: calculateTrustScore_def Math_round_of_int Let_def)

section \<open>One turn of the conversation\<close>

lemma pushMessage_fields [simp]:
  "template (pushMessage r c ctx) = template ctx"
  "interviewId (pushMessage r c ctx) = interviewId ctx"
  "currentAssessmentIndex (pushMessage r c ctx) = currentAssessmentIndex ctx"
  "currentQuestionIndex (pushMessage r c ctx) = currentQuestionIndex ctx"
  "responses (pushMessage r c ctx) = responses ctx"
  "conversationHistory (pushMessage r c ctx) = conversationHistory ctx @ [\<lparr>role = r, content = c\<rparr>]"
  by (simp_all add: pushMessage_def)

lemma cursor_pushMessage [simp]: "cursor (pushMessage r c ctx) = cursor ctx"
  by (simp add: cursor_def)

lemma getCurrentQuestion_pushMessage [simp]:
  "getCurrentQuestion (pushMessage r c ctx) = getCurrentQuestion ctx"
  by (simp add: getCurrentQuestion_def Let_def)

lemma cursorInPlan_pushMessage [simp]: "cursorInPlan (pushMessage r c ctx) = cursorInPlan ctx"
  by (simp add: cursorInPlan_def)

lemma followUpsWithin_pushMessage [simp]: "followUpsWithin n (pushMessage r c ctx) = followUpsWithin n ctx"
  by (simp add: followUpsWithin_def)

lemma cursorLe_refl [simp]: "cursorLe c c"
  by (simp add: cursorLe_def)

lemma cursorLe_trans: "cursorLe a b \<Longrightarrow> cursorLe b c \<Longrightarrow> cursorLe a c"
  by (auto simp: cursorLe_def)

lemma getCurrentQuestion_Some_index:
  "getCurrentQuestion ctx = Some q \<Longrightarrow> currentAssessmentIndex ctx < length (assessments (template ctx))"
  by (auto simp: getCurrentQuestion_def Let_def split: if_splits)

lemma getCurrentQuestion_None_end:
  "cursorInPlan ctx \<Longrightarrow> getCurrentQuestion ctx = None
     \<Longrightarrow> currentAssessmentIndex ctx = length (assessments (template ctx))"
  by (auto simp: getCurrentQuestion_def cursorInPlan_def Let_def split: if_splits)

lemma moveToNextQuestion_effect:
  assumes "moveToNextQuestion ctx = Inr (b, ctx')"
  shows "template ctx' = template ctx" and "interviewId ctx' = interviewId ctx"
    and "responses ctx' = responses ctx"
    and "cursorLe (cursor ctx) (cursor ctx')"
    and "b \<longleftrightarrow> currentAssessmentIndex ctx' = length (assessments (template ctx))"
    and "planWellFormed (template ctx) \<Longrightarrow> cursorInPlan ctx'"
  using assms
  by (auto simp: moveToNextQuestion_def Let_def cursor_def cursorLe_def cursorInPlan_def
        planWellFormed_def list_all_length split: if_splits)

lemma moveToNextQuestion_Inl:
  "moveToNextQuestion ctx = Inl e \<Longrightarrow> \<not> currentAssessmentIndex ctx < length (assessments (template ctx))"
  by (auto simp: moveToNextQuestion_def Let_def split: if_splits)

lemma followUpBranch_effect:
  assumes "followUpBranch env a q ev ex ctx st = (res, ctx', st')"
  shows "st' = st" and "template ctx' = template ctx" and "interviewId ctx' = interviewId ctx"
    and "cursor ctx' = cursor ctx" and "\<not> reportsComplete res"
    and "responses ctx' = responses ctx
         \<or> responses ctx' = assign (qid q) (ex\<lparr>followUpsAsked := followUpsAsked ex + 1\<rparr>) (responses ctx)"
  using assms
  by (auto simp: followUpBranch_def Let_def turnOf_def reportsComplete_def cursor_def
        split: option.splits)

lemma announceNext_effect:
  assumes "announceNext env a ev nq ctx st = (res, ctx', st')"
  shows "st' = st" and "template ctx' = template ctx" and "interviewId ctx' = interviewId ctx"
    and "cursor ctx' = cursor ctx" and "\<not> reportsComplete res"
    and "responses ctx' = responses ctx"
  using assms
  by (auto simp: announceNext_def Let_def turnOf_def reportsComplete_def cursor_def
        split: option.splits if_splits)

lemma advanceBranch_effect:
  assumes run: "advanceBranch env a q ev ex ctx st = (res, ctx', st')"
    and idx: "currentAssessmentIndex ctx < length (assessments (template ctx))"
  shows "template ctx' = template ctx" and "interviewId ctx' = interviewId ctx"
    and "responses ctx' = assign (qid q) ex (responses ctx)"
    and "cursorLe (cursor ctx) (cursor ctx')"
    and "planWellFormed (template ctx) \<Longrightarrow> cursorInPlan ctx \<Longrightarrow> cursorInPlan ctx'"
    and "reportsComplete res \<longleftrightarrow> currentAssessmentIndex ctx' = length (assessments (template ctx))"
proof -
  define ctx1 where "ctx1 = ctx\<lparr>responses := assign (qid q) ex (responses ctx)\<rparr>"
  have f1: "template ctx1 = template ctx" "interviewId ctx1 = interviewId ctx"
    "cursor ctx1 = cursor ctx" "responses ctx1 = assign (qid q) ex (responses ctx)"
    "cursorInPlan ctx1 = cursorInPlan ctx"
    "currentAssessmentIndex ctx1 = currentAssessmentIndex ctx"
    by (simp_all add: ctx1_def cursor_def cursorInPlan_def)
  have goal: "template ctx' = template ctx \<and> interviewId ctx' = interviewId ctx
      \<and> responses ctx' = assign (qid q) ex (responses ctx)
      \<and> cursorLe (cursor ctx) (cursor ctx')
      \<and> (planWellFormed (template ctx) \<longrightarrow> cursorInPlan ctx \<longrightarrow> cursorInPlan ctx')
      \<and> (reportsComplete res \<longleftrightarrow> currentAssessmentIndex ctx' = length (assessments (template ctx)))"
  proof (cases "saveResponseToDatabase env (interviewId ctx1) q a ev st")
    case (Inl e)
    with run have "res = Inl e" "ctx' = ctx1"
      by (auto simp: advanceBranch_def ctx1_def [symmetric] Let_def)
    then show ?thesis using f1 idx by (simp add: reportsComplete_def)
  next
    case (Inr st1)
    show ?thesis
    proof (cases "moveToNextQuestion ctx1")
      case (Inl e)
      then show ?thesis using moveToNextQuestion_Inl [OF Inl] idx f1 by simp
    next
      case mv: (Inr p)
      obtain b ctx2 where p: "p = (b, ctx2)" by (cases p)
      note eff = moveToNextQuestion_effect [OF mv [unfolded p]]
      have base: "template ctx2 = template ctx" "interviewId ctx2 = interviewId ctx"
        "responses ctx2 = assign (qid q) ex (responses ctx)"
        "cursorLe (cursor ctx) (cursor ctx2)"
        "planWellFormed (template ctx) \<Longrightarrow> cursorInPlan ctx2"
        "b \<longleftrightarrow> currentAssessmentIndex ctx2 = length (assessments (template ctx))"
        using eff f1 by simp_all
      show ?thesis
      proof (cases b)
        case True
        with run Inr mv p have "res = Inr (turnOf a ev None True ctx2)" "ctx' = ctx2"
          by (auto simp: advanceBranch_def ctx1_def [symmetric] Let_def)
        then show ?thesis using base True by (simp add: reportsComplete_def turnOf_def)
      next
        case False
        show ?thesis
        proof (cases "getCurrentQuestion ctx2")
          case None
          with run Inr mv p False have "res = Inr (turnOf a ev None False ctx2)" "ctx' = ctx2"
            by (auto simp: advanceBranch_def ctx1_def [symmetric] Let_def)
          then show ?thesis using base False by (simp add: reportsComplete_def turnOf_def)
        next
          case (Some nq)
          with run Inr mv p False have "announceNext env a ev nq ctx2 st1 = (res, ctx', st')"
            by (simp add: advanceBranch_def ctx1_def [symmetric] Let_def)
          note an = announceNext_effect [OF this]
          have "cursorInPlan ctx' = cursorInPlan ctx2"
            using an by (simp add: cursorInPlan_def cursor_def)
          moreover have "currentAssessmentIndex ctx' = currentAssessmentIndex ctx2"
            using an by (simp add: cursor_def)
          ultimately show ?thesis using base False an by simp
        qed
      qed
    qed
  qed
  from goal show "template ctx' = template ctx" and "interviewId ctx' = interviewId ctx"
    and "responses ctx' = assign (qid q) ex (responses ctx)"
    and "cursorLe (cursor ctx) (cursor ctx')"
    and "planWellFormed (template ctx) \<Longrightarrow> cursorInPlan ctx \<Longrightarrow> cursorInPlan ctx'"
    and "reportsComplete res \<longleftrightarrow> currentAssessmentIndex ctx' = length (assessments (template ctx))"
    by simp_all
qed

lemma needsFollowUp_zero: "needsFollowUp ev k len \<Longrightarrow> k = 0"
  by (auto simp: needsFollowUp_def split: if_splits)

lemma list_all_assign: "list_all P rs \<Longrightarrow> P (k, v) \<Longrightarrow> list_all P (assign k v rs)"
  by (induction rs) auto

lemma followUpsWithin_lookup:
  "followUpsWithin n ctx \<Longrightarrow> map_of (responses ctx) k = Some r \<Longrightarrow> followUpsAsked r \<le> n"
  by (auto simp: followUpsWithin_def list_all_iff dest!: map_of_SomeD)

lemma followUpsWithin_assign:
  "followUpsWithin n ctx \<Longrightarrow> followUpsAsked r \<le> n \<Longrightarrow> responses ctx' = assign k r (responses ctx)
     \<Longrightarrow> followUpsWithin n ctx'"
  by (simp add: followUpsWithin_def list_all_assign)

lemma turnOn_effect:
  assumes run: "turnOn env a ctx st = (res, ctx', st')"
  shows "template ctx' = template ctx" and "interviewId ctx' = interviewId ctx"
    and "cursorLe (cursor ctx) (cursor ctx')"
    and "planWellFormed (template ctx) \<Longrightarrow> cursorInPlan ctx \<Longrightarrow> cursorInPlan ctx'"
    and "cursorInPlan ctx \<Longrightarrow>
           reportsComplete res \<longleftrightarrow> currentAssessmentIndex ctx' = length (assessments (template ctx))"
    and "1 \<le> n \<Longrightarrow> followUpsWithin n ctx \<Longrightarrow> followUpsWithin n ctx'"
proof -
  define c0 where "c0 = pushMessage User a ctx"
  have c0: "template c0 = template ctx" "interviewId c0 = interviewId ctx" "cursor c0 = cursor ctx"
    "cursorInPlan c0 = cursorInPlan ctx" "followUpsWithin n c0 = followUpsWithin n ctx"
    "getCurrentQuestion c0 = getCurrentQuestion ctx" "responses c0 = responses ctx"
    "currentAssessmentIndex c0 = currentAssessmentIndex ctx"
    by (simp_all add: c0_def)
  have goal: "template ctx' = template ctx \<and> interviewId ctx' = interviewId ctx
      \<and> cursorLe (cursor ctx) (cursor ctx')
      \<and> (planWellFormed (template ctx) \<longrightarrow> cursorInPlan ctx \<longrightarrow> cursorInPlan ctx')
      \<and> (cursorInPlan ctx \<longrightarrow>
           (reportsComplete res \<longleftrightarrow> currentAssessmentIndex ctx' = length (assessments (template ctx))))
      \<and> (1 \<le> n \<longrightarrow> followUpsWithin n ctx \<longrightarrow> followUpsWithin n ctx')"
  proof (cases "getCurrentQuestion c0")
    case None
    with run have "res = Inr handleInterviewComplete" "ctx' = c0"
      by (auto simp: turnOn_def c0_def [symmetric] Let_def)
    moreover have "cursorInPlan ctx \<Longrightarrow> currentAssessmentIndex ctx = length (assessments (template ctx))"
      using getCurrentQuestion_None_end [of ctx] None c0 by simp
    ultimately show ?thesis
      using c0 by (auto simp: reportsComplete_def handleInterviewComplete_def)
  next
    case (Some q)
    define ev where "ev = evaluateResponse q a (evaluatorReply env)"
    define ex where "ex = (case map_of (responses c0) (qid q) of
                      Some r \<Rightarrow> r
                    | None \<Rightarrow>
                        \<lparr>responseText = a, responseScore = score ev,
                         followUpsAsked = 0,
                         responseEvaluation = generateEvaluationText ev\<rparr>)"
    have idx: "currentAssessmentIndex c0 < length (assessments (template c0))"
      using getCurrentQuestion_Some_index [OF Some] .
    have exb: "followUpsWithin n ctx \<Longrightarrow> followUpsAsked ex \<le> n"
      using followUpsWithin_lookup [of n c0 "qid q"] c0
      by (auto simp: ex_def split: option.splits)
    show ?thesis
    proof (cases "needsFollowUp ev (followUpsAsked ex) (length a)")
      case True
      with run Some have "followUpBranch env a q ev ex c0 st = (res, ctx', st')"
        by (simp add: turnOn_def c0_def [symmetric] Let_def ev_def [symmetric] ex_def [symmetric])
      note fu = followUpBranch_effect [OF this]
      have z: "followUpsAsked ex = 0" using needsFollowUp_zero [OF True] .
      have "cursorInPlan ctx' = cursorInPlan ctx"
        using fu c0 by (simp add: cursorInPlan_def cursor_def)
      moreover have "currentAssessmentIndex ctx' = currentAssessmentIndex ctx"
        using fu c0 by (simp add: cursor_def)
      moreover have "1 \<le> n \<Longrightarrow> followUpsWithin n ctx \<Longrightarrow> followUpsWithin n ctx'"
      proof -
        assume n: "1 \<le> n" and w: "followUpsWithin n ctx"
        from fu(6) show "followUpsWithin n ctx'"
        proof
          assume "responses ctx' = responses c0"
          then show ?thesis using w c0 by (simp add: followUpsWithin_def)
        next
          assume "responses ctx' = assign (qid q) (ex\<lparr>followUpsAsked := followUpsAsked ex + 1\<rparr>) (responses c0)"
          then show ?thesis
            using followUpsWithin_assign [of n c0 "ex\<lparr>followUpsAsked := followUpsAsked ex + 1\<rparr>" ctx' "qid q"]
              w c0 z n by simp
        qed
      qed
      ultimately show ?thesis using fu c0 idx by auto
    next
      case False
      with run Some have "advanceBranch env a q ev ex c0 st = (res, ctx', st')"
        by (simp add: turnOn_def c0_def [symmetric] Let_def ev_def [symmetric] ex_def [symmetric])
      note ad = advanceBranch_effect [OF this idx]
      have "1 \<le> n \<Longrightarrow> followUpsWithin n ctx \<Longrightarrow> followUpsWithin n ctx'"
        using followUpsWithin_assign [of n c0 ex ctx' "qid q"] exb ad(3) c0 by simp
      then show ?thesis using ad c0 by auto
    qed
  qed
  from goal show "template ctx' = template ctx" and "interviewId ctx' = interviewId ctx"
    and "cursorLe (cursor ctx) (cursor ctx')"
    and "planWellFormed (template ctx) \<Longrightarrow> cursorInPlan ctx \<Longrightarrow> cursorInPlan ctx'"
    and "cursorInPlan ctx \<Longrightarrow>
           reportsComplete res \<longleftrightarrow> currentAssessmentIndex ctx' = length (assessments (template ctx))"
    and "1 \<le> n \<Longrightarrow> followUpsWithin n ctx \<Longrightarrow> followUpsWithin n ctx'"
    by simp_all
qed

lemma processResponse_missing:
  "sessionStore st sid = None \<Longrightarrow> processResponse env sid a st = (Inl NotFound, st)"
  by (simp add: processResponse_def getContext_def)

lemma processResponse_found:
  assumes "sessionStore st sid = Some ctx"
  obtains res ctx' st1 where "turnOn env a ctx st = (res, ctx', st1)"
    and "processResponse env sid a st = (res, updateContext sid ctx' st1)"
proof -
  obtain res ctx' st1 where t: "turnOn env a ctx st = (res, ctx', st1)"
    by (cases "turnOn env a ctx st") auto
  with assms have "processResponse env sid a st = (res, updateContext sid ctx' st1)"
    by (simp add: processResponse_def getContext_def)
  with t that show thesis by blast
qed

lemma turnOn_store: "turnOn env a ctx st = (res, ctx', st') \<Longrightarrow> sessionStore st' = sessionStore st"
  by (auto simp: turnOn_def followUpBranch_def advanceBranch_def announceNext_def
        saveResponseToDatabase_def Let_def
        split: option.splits if_splits sum.splits prod.splits)


section \<open>Sessions in the store\<close>

lemma processResponse_session:
  assumes "sessionStore st sid = Some ctx"
  obtains ctx' where "sessionStore (snd (processResponse env sid a st)) sid = Some ctx'"
    and "template ctx' = template ctx"
    and "cursorLe (cursor ctx) (cursor ctx')"
    and "planWellFormed (template ctx) \<Longrightarrow> cursorInPlan ctx \<Longrightarrow> cursorInPlan ctx'"
    and "cursorInPlan ctx \<Longrightarrow>
           reportsComplete (fst (processResponse env sid a st))
             \<longleftrightarrow> currentAssessmentIndex ctx' = length (assessments (template ctx'))"
    and "\<And>n. 1 \<le> n \<Longrightarrow> followUpsWithin n ctx \<Longrightarrow> followUpsWithin n ctx'"
proof -
  from assms obtain res ctx' st1 where t: "turnOn env a ctx st = (res, ctx', st1)"
    and p: "processResponse env sid a st = (res, updateContext sid ctx' st1)"
    by (rule processResponse_found)
  note eff = turnOn_effect [OF t]
  have "sessionStore (snd (processResponse env sid a st)) sid = Some ctx'"
    using p by (simp add: updateContext_def)
  moreover have "fst (processResponse env sid a st) = res" using p by simp
  ultimately show thesis using that [of ctx'] eff by simp
qed

lemma processResponse_others:
  "k \<noteq> sid \<Longrightarrow> sessionStore (snd (processResponse env sid a st)) k = sessionStore st k"
proof (cases "sessionStore st sid")
  case None
  then show ?thesis by (simp add: processResponse_missing)
next
  case (Some ctx)
  then obtain res ctx' st1 where t: "turnOn env a ctx st = (res, ctx', st1)"
    and p: "processResponse env sid a st = (res, updateContext sid ctx' st1)"
    by (rule processResponse_found)
  assume "k \<noteq> sid"
  then show ?thesis using p turnOn_store [OF t] by (simp add: updateContext_def)
qed

text \<open>
  Calls that run one at a time: along every such sequence of \<^verbatim>\<open>processResponse\<close> calls on a
  session whose recorded follow-up counters are at most 2 (a new session has none), the
  session stays in the store and every recorded counter stays at most 2; and with a counter
  of 2 the follow-up policy answers no, whatever the score, the answer length and the
  weaknesses. Calls that overlap are the subject of a section below.
\<close>

lemma serial_followUp_cap:
  assumes "sessionStore st sid = Some ctx"
    and "\<forall>(q, r) \<in> set (responses ctx). followUpsAsked r \<le> 2"
  shows "list_all (\<lambda>(res, st'). \<exists>ctx'. sessionStore st' sid = Some ctx'
                     \<and> (\<forall>(q, r) \<in> set (responses ctx'). followUpsAsked r \<le> 2))
           (turns sid calls st)
         \<and> \<not> needsFollowUp ev 2 len"
proof -
  have "followUpsWithin 2 ctx" using assms(2) by (simp add: followUpsWithin_def list_all_iff)
  with assms(1) have "list_all (\<lambda>(res, st'). \<exists>ctx'. sessionStore st' sid = Some ctx'
                     \<and> followUpsWithin 2 ctx') (turns sid calls st)"
  proof (induction calls arbitrary: st ctx)
    case Nil
    then show ?case by simp
  next
    case (Cons call calls)
    from Cons.prems(1) obtain ctx' where
      s: "sessionStore (snd (processResponse (fst call) sid (snd call) st)) sid = Some ctx'"
      and w: "\<And>n. 1 \<le> n \<Longrightarrow> followUpsWithin n ctx \<Longrightarrow> followUpsWithin n ctx'"
      by (rule processResponse_session [where env = "fst call" and a = "snd call"]) blast
    have w2: "followUpsWithin 2 ctx'" using w [of 2] Cons.prems(2) by simp
    from Cons.IH [OF s w2] s w2 show ?case
      by (simp add: Let_def case_prod_beta)
  qed
  then show ?thesis
    by (simp add: followUpsWithin_def list_all_iff needsFollowUp_def)
qed

text \<open>A new session stands at cursor (0, 0), which is in a well-formed plan.\<close>

lemma fresh_cursorInPlan:
  "planWellFormed (template ctx) \<Longrightarrow> cursor ctx = (0, 0) \<Longrightarrow> cursorInPlan ctx"
  by (cases "assessments (template ctx)") (auto simp: cursorInPlan_def planWellFormed_def cursor_def)

text \<open>
  \<^bold>\<open>C8.\<close> Along every sequence of \<^verbatim>\<open>processResponse\<close> calls on a session, the cursors, from
  the one before the first call on, are non-decreasing in the lexicographic order. When every
  assessment of the plan has at least one question (the invariant of the data model) and the
  cursor is in the plan, a call reports \<^verbatim>\<open>isComplete\<close> exactly when the cursor after it stands
  at the end of the plan (assessment index equal to the number of assessments); so the first
  call that reports completion is the first that reaches the end.
\<close>

theorem cursor_monotone:
  assumes "sessionStore st sid = Some ctx"
  shows "sorted_wrt cursorLe (cursor ctx # map (\<lambda>(res, st'). cursorAt sid st') (turns sid calls st))
         \<and> (planWellFormed (template ctx) \<and> cursorInPlan ctx
              \<longrightarrow> list_all (\<lambda>(res, st'). reportsComplete res \<longleftrightarrow> atPlanEnd sid st')
                    (turns sid calls st))"
proof (intro conjI impI)
  from assms
  show "sorted_wrt cursorLe (cursor ctx # map (\<lambda>(res, st'). cursorAt sid st') (turns sid calls st))"
  proof (induction calls arbitrary: st ctx)
    case Nil
    then show ?case by simp
  next
    case (Cons call calls)
    let ?after = "processResponse (fst call) sid (snd call) st"
    from Cons.prems obtain ctx' where
      s: "sessionStore (snd ?after) sid = Some ctx'"
      and le: "cursorLe (cursor ctx) (cursor ctx')"
      by (rule processResponse_session [where env = "fst call" and a = "snd call"]) blast
    note IH = Cons.IH [OF s]
    have at: "cursorAt sid (snd ?after) = cursor ctx'" using s by (simp add: cursorAt_def)
    have rest: "\<forall>c \<in> set (map (\<lambda>(res, st'). cursorAt sid st') (turns sid calls (snd ?after))).
                  cursorLe (cursor ctx) c"
      using IH le by (auto intro: cursorLe_trans)
    show ?case using IH rest at le
      by (simp add: Let_def case_prod_beta)
  qed
next
  assume "planWellFormed (template ctx) \<and> cursorInPlan ctx"
  with assms
  show "list_all (\<lambda>(res, st'). reportsComplete res \<longleftrightarrow> atPlanEnd sid st') (turns sid calls st)"
  proof (induction calls arbitrary: st ctx)
    case Nil
    then show ?case by simp
  next
    case (Cons call calls)
    let ?after = "processResponse (fst call) sid (snd call) st"
    from Cons.prems(1) obtain ctx' where
      s: "sessionStore (snd ?after) sid = Some ctx'"
      and t: "template ctx' = template ctx"
      and inplan: "planWellFormed (template ctx) \<Longrightarrow> cursorInPlan ctx \<Longrightarrow> cursorInPlan ctx'"
      and fin: "cursorInPlan ctx \<Longrightarrow>
             reportsComplete (fst ?after)
               \<longleftrightarrow> currentAssessmentIndex ctx' = length (assessments (template ctx'))"
      by (rule processResponse_session [where env = "fst call" and a = "snd call"]) blast
    have inv: "planWellFormed (template ctx') \<and> cursorInPlan ctx'"
      using t inplan Cons.prems(2) by simp
    note IH = Cons.IH [OF s inv]
    have here: "reportsComplete (fst ?after) \<longleftrightarrow> atPlanEnd sid (snd ?after)"
      using fin Cons.prems(2) s by (simp add: atPlanEnd_def)
    show ?case using IH here
      by (simp add: Let_def case_prod_beta)
  qed
qed

lemma startInterview_store:
  "sessionStore (snd (startInterview env now ivId st)) k = Some c
     \<Longrightarrow> sessionStore st k = Some c \<or> responses c = []"
  by (auto simp: startInterview_def createSession_def getContext_def updateContext_def Let_def
        pushMessage_def split: option.splits if_splits)

lemma completeInterview_store:
  "sessionStore (snd (completeInterview env sid st)) k = Some c \<Longrightarrow> sessionStore st k = Some c"
  by (auto simp: completeInterview_def getContext_def deleteSession_def Let_def
        split: option.splits if_splits)

lemma reachable_followUps:
  "reachable st \<Longrightarrow> sessionStore st k = Some c \<Longrightarrow> followUpsWithin 1 c"
proof (induction arbitrary: k c rule: reachable.induct)
  case (boot st)
  then show ?case by simp
next
  case (tables st st')
  then show ?case by simp
next
  case (started st env now ivId)
  from startInterview_store [OF started.prems] show ?case
    using started.IH by (auto simp: followUpsWithin_def)
next
  case (responded st env sid a)
  show ?case
  proof (cases "k = sid")
    case False
    then show ?thesis using responded processResponse_others [of k sid env a st] by simp
  next
    case True
    show ?thesis
    proof (cases "sessionStore st sid")
      case None
      then show ?thesis using responded.prems True by (simp add: processResponse_missing)
    next
      case (Some c0)
      then obtain c' where "sessionStore (snd (processResponse env sid a st)) sid = Some c'"
        and "\<And>n. 1 \<le> n \<Longrightarrow> followUpsWithin n c0 \<Longrightarrow> followUpsWithin n c'"
        by (rule processResponse_session [where env = env and a = a]) blast
      then show ?thesis using responded.IH [OF Some] responded.prems True by simp
    qed
  qed
next
  case (completed st env sid)
  from completeInterview_store [OF completed.prems] show ?case using completed.IH by simp
qed

text \<open>
  Calls that run one at a time: in every state the backend reaches by such calls, every
  follow-up counter recorded in a session is at most 1, and with a counter of 1 the follow-up
  policy answers no for every evaluation and every answer length.
\<close>

lemma serial_followUp_at_most_once:
  assumes "reachable st" and "sessionStore st sid = Some ctx"
  shows "(\<forall>(q, r) \<in> set (responses ctx). followUpsAsked r \<le> 1) \<and> \<not> needsFollowUp ev 1 len"
  using reachable_followUps [OF assms]
  by (simp add: followUpsWithin_def list_all_iff needsFollowUp_def)


section \<open>Evaluating the example sessions\<close>

lemmas example_unfold =
  startInterview_def createSession_def getContext_def updateContext_def Let_def
  pushMessage_def getCurrentQuestion_def questionsOf_def adaptQuestionToContext_def
  processResponse_def turnOn_def followUpBranch_def advanceBranch_def announceNext_def
  saveResponseToDatabase_def findAssessmentId_def moveToNextQuestion_def turnOf_def
  evaluateResponse_def needsFollowUp_def generateEvaluationText_def getProgress_def
  toLowerCase_def lowerChar_def showInt_def showNat.simps fallbackEvaluation_def
  cursorAt_def cursor_def
  exampleQuestion_def examplePlan_def exampleInterview_def exampleBoot_def scored_def
  exampleReplies_def exampleSid_def exampleStarted_def longAnswer_def exampleContext_def

lemma exampleStarted_session: "sessionStore exampleStarted exampleSid = Some exampleContext"
  by (simp add: example_unfold)

lemma afterFollowUp_session: "sessionStore afterFollowUp exampleSid = Some followedUpContext"
  by (simp add: afterFollowUp_def followedUpContext_def example_unfold)


text \<open>The properties of calls that run one at a time, at the example session.\<close>

lemma serial_followUp_cap_example:
  "sessionStore afterFollowUp exampleSid = Some followedUpContext
   \<and> followUpsWithin 2 followedUpContext
   \<and> list_all (\<lambda>(res, st'). \<exists>ctx'. sessionStore st' exampleSid = Some ctx'
                               \<and> followUpsWithin 2 ctx')
         (turns exampleSid [(exampleReplies (Some (scored 90)), longAnswer)] afterFollowUp)
   \<and> \<not> needsFollowUp (scored 40) 2 5"
proof -
  have h: "\<forall>(q, r) \<in> set (responses followedUpContext). followUpsAsked r \<le> 2"
    by (simp add: followedUpContext_def)
  from serial_followUp_cap [OF afterFollowUp_session h, of "[(exampleReplies (Some (scored 90)), longAnswer)]"
      "scored 40" 5] afterFollowUp_session h
  show ?thesis by (simp add: followUpsWithin_def list_all_iff)
qed

lemma examplePlan_wellFormed: "planWellFormed (template exampleContext)"
  by (simp add: planWellFormed_def exampleContext_def examplePlan_def questionsOf_def)

lemma exampleContext_inPlan: "cursorInPlan exampleContext"
  by (simp add: cursorInPlan_def exampleContext_def examplePlan_def questionsOf_def)

text \<open>The three long answers scored 80 of the example session, call by call: what each call
  reports and where the cursor stands after it.\<close>

lemma uniform_trace:
  "map (\<lambda>(res, st'). (reportsComplete res, cursorAt exampleSid st'))
     (turns exampleSid
        [(exampleReplies (Some (scored 80)), longAnswer),
         (exampleReplies (Some (scored 80)), longAnswer),
         (exampleReplies (Some (scored 80)), longAnswer)]
        exampleStarted)
   = [(False, (0, 1)), (False, (0, 2)), (True, (1, 0))]"
  by (simp add: example_unfold reportsComplete_def)

theorem cursor_monotone_witness:
  "sessionStore exampleStarted exampleSid = Some exampleContext
   \<and> planWellFormed (template exampleContext) \<and> cursorInPlan exampleContext
   \<and> sorted_wrt cursorLe
        (cursor exampleContext
         # map (\<lambda>(res, st'). cursorAt exampleSid st')
             (turns exampleSid
                [(exampleReplies (Some (scored 80)), longAnswer),
                 (exampleReplies (Some (scored 80)), longAnswer),
                 (exampleReplies (Some (scored 80)), longAnswer)]
                exampleStarted))
   \<and> list_all (\<lambda>(res, st'). reportsComplete res \<longleftrightarrow> atPlanEnd exampleSid st')
        (turns exampleSid
           [(exampleReplies (Some (scored 80)), longAnswer),
            (exampleReplies (Some (scored 80)), longAnswer),
            (exampleReplies (Some (scored 80)), longAnswer)]
           exampleStarted)"
  using cursor_monotone [OF exampleStarted_session,
      of "[(exampleReplies (Some (scored 80)), longAnswer),
           (exampleReplies (Some (scored 80)), longAnswer),
           (exampleReplies (Some (scored 80)), longAnswer)]"]
    exampleStarted_session examplePlan_wellFormed exampleContext_inPlan
  by blast

lemma afterFollowUp_reachable: "reachable afterFollowUp"
proof -
  have "reachable exampleBoot" by (rule reachable.boot) (simp add: exampleBoot_def)
  then have "reachable exampleStarted" unfolding exampleStarted_def by (rule reachable.started)
  then show ?thesis unfolding afterFollowUp_def by (rule reachable.responded)
qed

lemma serial_followUp_at_most_once_example:
  "reachable afterFollowUp \<and> sessionStore afterFollowUp exampleSid = Some followedUpContext
   \<and> followUpsWithin 1 followedUpContext
   \<and> \<not> needsFollowUp (scored 40) 1 5"
  using serial_followUp_at_most_once [OF afterFollowUp_reachable afterFollowUp_session, of "scored 40" 5]
    afterFollowUp_reachable afterFollowUp_session
  by (simp add: followUpsWithin_def list_all_iff)

section \<open>A failing evaluator\<close>

lemma turnOn_history:
  "turnOn env a ctx st = (res, ctx', st')
     \<Longrightarrow> \<exists>rest. conversationHistory ctx'
                 = conversationHistory ctx @ \<lparr>role = User, content = a\<rparr> # rest"
  by (auto simp: turnOn_def followUpBranch_def advanceBranch_def announceNext_def
        moveToNextQuestion_def pushMessage_def Let_def
        split: option.splits if_splits sum.splits prod.splits)

lemma evaluateResponse_fallback:
  "evaluateResponse q a None = evaluateResponse q a (Some fallbackEvaluation)"
  by (simp add: evaluateResponse_def fallbackEvaluation_def)

lemma branches_ignore_evaluatorReply:
  "saveResponseToDatabase (env\<lparr>evaluatorReply := x\<rparr>) = saveResponseToDatabase env"
  "announceNext (env\<lparr>evaluatorReply := x\<rparr>) = announceNext env"
  "followUpBranch (env\<lparr>evaluatorReply := x\<rparr>) = followUpBranch env"
  by (simp_all add: saveResponseToDatabase_def announceNext_def followUpBranch_def fun_eq_iff)

lemma advanceBranch_ignores_evaluatorReply:
  "advanceBranch (env\<lparr>evaluatorReply := x\<rparr>) a q ev ex ctx st = advanceBranch env a q ev ex ctx st"
  unfolding advanceBranch_def branches_ignore_evaluatorReply by (rule refl)

lemma turnOn_evaluator_failure:
  "turnOn (env\<lparr>evaluatorReply := None\<rparr>) a ctx st
     = turnOn (env\<lparr>evaluatorReply := Some fallbackEvaluation\<rparr>) a ctx st"
proof -
  have reply: "evaluatorReply (env\<lparr>evaluatorReply := None\<rparr>) = None"
    "evaluatorReply (env\<lparr>evaluatorReply := Some fallbackEvaluation\<rparr>) = Some fallbackEvaluation"
    by simp_all
  show ?thesis
    unfolding turnOn_def branches_ignore_evaluatorReply advanceBranch_ignores_evaluatorReply
      reply evaluateResponse_fallback
    by (rule refl)
qed

lemma processResponse_evaluator_failure:
  "processResponse (env\<lparr>evaluatorReply := None\<rparr>) sid a st
     = processResponse (env\<lparr>evaluatorReply := Some fallbackEvaluation\<rparr>) sid a st"
  unfolding processResponse_def turnOn_evaluator_failure by (rule refl)

text \<open>
  \<^bold>\<open>C5, as the code has it.\<close> A failure of the evaluator does not roll the turn back:
  \<^verbatim>\<open>evaluateResponse\<close> catches it and returns the fallback evaluation (score 50), and
  \<^verbatim>\<open>processResponse\<close> behaves exactly as if the evaluator had returned that evaluation; for a
  session in the store, the answer is appended to its conversation history.
\<close>

theorem evaluator_failure_commits:
  "processResponse (env\<lparr>evaluatorReply := None\<rparr>) sid a st
     = processResponse (env\<lparr>evaluatorReply := Some fallbackEvaluation\<rparr>) sid a st
   \<and> (\<forall>ctx. sessionStore st sid = Some ctx \<longrightarrow>
        (\<exists>ctx' rest.
           sessionStore (snd (processResponse (env\<lparr>evaluatorReply := None\<rparr>) sid a st)) sid
             = Some ctx'
           \<and> conversationHistory ctx'
               = conversationHistory ctx @ \<lparr>role = User, content = a\<rparr> # rest))"
proof (intro conjI allI impI)
  show "processResponse (env\<lparr>evaluatorReply := None\<rparr>) sid a st
     = processResponse (env\<lparr>evaluatorReply := Some fallbackEvaluation\<rparr>) sid a st"
    by (rule processResponse_evaluator_failure)
next
  fix ctx
  assume "sessionStore st sid = Some ctx"
  then obtain res ctx' st1 where
    t: "turnOn (env\<lparr>evaluatorReply := None\<rparr>) a ctx st = (res, ctx', st1)"
    and p: "processResponse (env\<lparr>evaluatorReply := None\<rparr>) sid a st
              = (res, updateContext sid ctx' st1)"
    by (rule processResponse_found)
  from turnOn_history [OF t] p
  show "\<exists>ctx' rest.
           sessionStore (snd (processResponse (env\<lparr>evaluatorReply := None\<rparr>) sid a st)) sid
             = Some ctx'
           \<and> conversationHistory ctx'
               = conversationHistory ctx @ \<lparr>role = User, content = a\<rparr> # rest"
    by (auto simp: updateContext_def)
qed

text \<open>The state after a turn whose evaluator call fails differs from the state before: the
  cursor of the example session has moved from (0, 0) to (0, 1).\<close>

theorem evaluator_failure_counterexample:
  "snd (processResponse (exampleReplies None) exampleSid longAnswer exampleStarted) \<noteq> exampleStarted"
proof
  assume "snd (processResponse (exampleReplies None) exampleSid longAnswer exampleStarted) = exampleStarted"
  then have "cursorAt exampleSid (snd (processResponse (exampleReplies None) exampleSid longAnswer exampleStarted))
             = cursorAt exampleSid exampleStarted" by simp
  then show False by (simp add: example_unfold)
qed

text \<open>The amended claim at the example session.\<close>

theorem evaluator_failure_commits_witness:
  "sessionStore exampleStarted exampleSid = Some exampleContext
   \<and> processResponse (exampleReplies (Some (scored 80))\<lparr>evaluatorReply := None\<rparr>)
         exampleSid longAnswer exampleStarted
       = processResponse (exampleReplies (Some (scored 80))\<lparr>evaluatorReply := Some fallbackEvaluation\<rparr>)
           exampleSid longAnswer exampleStarted
   \<and> (\<exists>ctx' rest.
         sessionStore (snd (processResponse (exampleReplies (Some (scored 80))\<lparr>evaluatorReply := None\<rparr>)
                              exampleSid longAnswer exampleStarted)) exampleSid = Some ctx'
         \<and> conversationHistory ctx'
             = conversationHistory exampleContext @ \<lparr>role = User, content = longAnswer\<rparr> # rest)"
  using evaluator_failure_commits [of "exampleReplies (Some (scored 80))" exampleSid longAnswer
      exampleStarted] exampleStarted_session
  by blast


section \<open>Scores at completion\<close>

lemma floor_rat_numeral: "\<lfloor>numeral a / numeral b :: rat\<rfloor> = numeral a div numeral b"
  using floor_divide_of_int_eq [of "numeral a" "numeral b", where ?'a = rat] by simp

lemma Math_round_average:
  assumes "xs \<noteq> []"
  shows "Math_round (average xs) = (2 * sum_list xs + int (length xs)) div (2 * int (length xs))"
proof -
  let ?n = "int (length xs)"
  have n: "?n > 0" using assms by simp
  have "average xs + 1 / 2 = (of_int (2 * sum_list xs + ?n) :: rat) / of_int (2 * ?n)"
    using n by (simp add: average_def field_simps)
  then show ?thesis
    unfolding Math_round_def by (simp only: floor_divide_of_int_eq)
qed

lemmas state_unfold = exampleEntry_def exampleRow_def exchange_def uniformContext_def
  uniformState_def weightedContext_def weightedState_def weightedPlan_def

lemma uniformState_run:
  "snd (last (turns exampleSid
                  [(exampleReplies (Some (scored 80)), longAnswer),
                   (exampleReplies (Some (scored 80)), longAnswer),
                   (exampleReplies (Some (scored 80)), longAnswer)]
                  exampleStarted)) = uniformState"
  by (simp add: example_unfold state_unfold)

lemma weightedState_run:
  "snd (last (turns exampleSid
                  [(exampleReplies (Some (scored 100)), longAnswer),
                   (exampleReplies (Some (scored 50)), longAnswer),
                   (exampleReplies (Some (scored 50)), longAnswer),
                   (exampleReplies (Some (scored 50)), longAnswer)]
                  (snd (startInterview (exampleReplies None) 1 ''i''
                          (exampleBoot\<lparr>interviewTable := [''i'' \<mapsto> exampleInterview weightedPlan]\<rparr>)))))
   = weightedState"
  by (simp add: example_unfold state_unfold) (simp add: numeral_2_eq_2)

lemmas scoring_unfold =
  completeInterview_def getContext_def overallScoreOf_def scoreBreakdownOf_def
  assessmentResponses_def questionsOf_def deleteSession_def recommendationUpper_def
  Math_round_average Let_def exampleReplies_def exampleInterview_def examplePlan_def
  exampleQuestion_def exampleContext_def exampleSid_def

text \<open>The summary of a successful \<^verbatim>\<open>completeInterview\<close> carries the unweighted rounded mean
  of all recorded scores and the breakdown by assessment.\<close>

lemma completeInterview_scores:
  "completeInterview env sid st = (Inr summary, st') \<Longrightarrow> sessionStore st sid = Some ctx
     \<Longrightarrow> overallScore summary = overallScoreOf ctx \<and> scoreBreakdown summary = scoreBreakdownOf ctx"
  by (auto simp: completeInterview_def getContext_def Let_def split: option.splits if_splits)

text \<open>
  \<^bold>\<open>C1.\<close> The overall score of \<^verbatim>\<open>completeInterview\<close> is the rounded mean of all recorded scores,
  without the weights of the assessments. On the plan with weights 80 and 20, with 100 for the
  one question of the first assessment and 50 for each of the three questions of the second,
  \<^verbatim>\<open>completeInterview\<close> returns 63, where the weighted average of the specification is 90, as
  is the value that \<^verbatim>\<open>InterviewsService.calculateOverallScore\<close> computes from the rows of the
  same answers. The scenario of the claim holds: one assessment of weight 100 and three
  answers scored 80 give the overall score 80 and the breakdown with the one entry 80.
\<close>

theorem completeInterview_ignores_weights:
  "map_sum id overallScore
     (fst (completeInterview (exampleReplies None) exampleSid weightedState)) = Inr 63
   \<and> claimedOverallScore weightedContext = 90
   \<and> calculateOverallScore
         [(''a1'', Some 100), (''a2'', Some 50), (''a2'', Some 50), (''a2'', Some 50)]
         (assessments weightedPlan) = 90
   \<and> map_sum id (\<lambda>s. (overallScore s, scoreBreakdown s))
         (fst (completeInterview (exampleReplies None) exampleSid uniformState))
       = Inr (80, [(''a1'', 80)])"
proof (intro conjI)
  show "map_sum id overallScore
     (fst (completeInterview (exampleReplies None) exampleSid weightedState)) = Inr 63"
    by (simp add: scoring_unfold state_unfold)
  show "claimedOverallScore weightedContext = 90"
    by (simp add: claimedOverallScore_def assessmentResponses_def questionsOf_def average_def
        Math_round_def floor_rat_numeral state_unfold exampleQuestion_def exampleContext_def)
  show "calculateOverallScore
         [(''a1'', Some 100), (''a2'', Some 50), (''a2'', Some 50), (''a2'', Some 50)]
         (assessments weightedPlan) = 90"
    by (simp add: calculateOverallScore_def weightedPlan_def average_def Math_round_def
        floor_rat_numeral)
  show "map_sum id (\<lambda>s. (overallScore s, scoreBreakdown s))
         (fst (completeInterview (exampleReplies None) exampleSid uniformState))
       = Inr (80, [(''a1'', 80)])"
    by (simp add: scoring_unfold state_unfold)
qed

section \<open>Completing twice\<close>

lemma completeInterview_deletes:
  "completeInterview env sid st = (Inr summary, st') \<Longrightarrow> sessionStore st' sid = None"
  by (auto simp: completeInterview_def getContext_def deleteSession_def Let_def
        split: option.splits if_splits)

text \<open>
  \<^bold>\<open>C2, as the code has it.\<close> \<^verbatim>\<open>completeInterview\<close> is not idempotent: a call that succeeds has
  deleted the session, so a second call on the same session id, whatever the collaborators
  reply, throws \<^verbatim>\<open>NotFoundException\<close> and leaves the backend as it is; nothing is recomputed and
  no summary is returned.
\<close>

theorem completeInterview_second_call:
  assumes "completeInterview env sid st = (Inr summary, st')"
  shows "completeInterview env' sid st' = (Inl NotFound, st')"
  using completeInterview_deletes [OF assms]
  by (simp add: completeInterview_def getContext_def)

lemma uniform_first_call:
  "fst (completeInterview (exampleReplies None) exampleSid uniformState) = Inr uniformSummary"
  by (simp add: scoring_unfold state_unfold uniformSummary_def)

theorem completeInterview_second_call_witness:
  "completeInterview (exampleReplies None) exampleSid uniformState
     = (Inr uniformSummary, snd (completeInterview (exampleReplies None) exampleSid uniformState))
   \<and> completeInterview (exampleReplies None) exampleSid
         (snd (completeInterview (exampleReplies None) exampleSid uniformState))
       = (Inl NotFound, snd (completeInterview (exampleReplies None) exampleSid uniformState))"
proof -
  have h: "completeInterview (exampleReplies None) exampleSid uniformState
     = (Inr uniformSummary, snd (completeInterview (exampleReplies None) exampleSid uniformState))"
    using uniform_first_call by (simp add: prod_eq_iff)
  from completeInterview_second_call [OF h] h show ?thesis by blast
qed

text \<open>At the example session the second call does not return what the first returned.\<close>

theorem completeInterview_idempotent_counterexample:
  "fst (completeInterview (exampleReplies None) exampleSid
          (snd (completeInterview (exampleReplies None) exampleSid uniformState)))
   \<noteq> fst (completeInterview (exampleReplies None) exampleSid uniformState)"
proof -
  have h: "completeInterview (exampleReplies None) exampleSid uniformState
     = (Inr uniformSummary, snd (completeInterview (exampleReplies None) exampleSid uniformState))"
    using uniform_first_call by (simp add: prod_eq_iff)
  have "completeInterview (exampleReplies None) exampleSid
          (snd (completeInterview (exampleReplies None) exampleSid uniformState))
        = (Inl NotFound, snd (completeInterview (exampleReplies None) exampleSid uniformState))"
    using completeInterview_deletes [OF h] by (simp add: completeInterview_def getContext_def)
  then show ?thesis using uniform_first_call by simp
qed


section \<open>A repeated answer to the same question\<close>

text \<open>When the current question already has an entry, a turn keeps the text and the score of
  that entry: the new answer and its evaluation are not merged into it.\<close>

lemma map_of_assign: "map_of (assign k v rs) k = Some v"
  by (induction rs) auto

lemma existing_entry_kept:
  assumes run: "turnOn env a ctx st = (res, ctx', st')"
    and q: "getCurrentQuestion ctx = Some q"
    and r: "map_of (responses ctx) (qid q) = Some r"
  shows "\<exists>r'. map_of (responses ctx') (qid q) = Some r'
              \<and> responseText r' = responseText r \<and> responseScore r' = responseScore r"
proof -
  define c0 where "c0 = pushMessage User a ctx"
  define ev where "ev = evaluateResponse q a (evaluatorReply env)"
  have idx: "currentAssessmentIndex c0 < length (assessments (template c0))"
    using getCurrentQuestion_Some_index [OF q] by (simp add: c0_def)
  have c0: "getCurrentQuestion c0 = Some q" "map_of (responses c0) (qid q) = Some r"
    "responses c0 = responses ctx"
    using q r by (simp_all add: c0_def)
  show ?thesis
  proof (cases "needsFollowUp ev (followUpsAsked r) (length a)")
    case True
    with run c0 have "followUpBranch env a q ev r c0 st = (res, ctx', st')"
      by (simp add: turnOn_def c0_def [symmetric] Let_def ev_def [symmetric])
    from followUpBranch_effect(6) [OF this] show ?thesis
      using c0 by (auto simp: map_of_assign)
  next
    case False
    with run c0 have "advanceBranch env a q ev r c0 st = (res, ctx', st')"
      by (simp add: turnOn_def c0_def [symmetric] Let_def ev_def [symmetric])
    from advanceBranch_effect(3) [OF this idx] show ?thesis
      by (simp add: map_of_assign)
  qed
qed

lemma afterSecondAnswer_eq: "afterSecondAnswer = secondAnswerState"
  by (simp add: afterSecondAnswer_def afterFollowUp_def secondAnswerState_def
      followedUpContext_def exampleRow_def example_unfold)

text \<open>
  \<^bold>\<open>C6.\<close> The example session: a short first answer to question \<open>q1\<close> scored 40 (a follow-up
  is asked), then a long second answer scored 90. The entry of \<open>q1\<close> in \<^verbatim>\<open>responses\<close> still holds
  the text and the score 40 of the first answer, with \<^verbatim>\<open>followUpsAsked\<close> 1, while the row that
  \<^verbatim>\<open>saveResponseToDatabase\<close> wrote holds the second answer and its score 90; the overall score
  and the score of the assessment that \<^verbatim>\<open>completeInterview\<close> computes are 40.
\<close>

theorem repeated_answer_keeps_first_score:
  "map_option (\<lambda>c. map (\<lambda>(q, r). (q, responseText r, responseScore r, followUpsAsked r))
                 (responses c))
     (sessionStore afterSecondAnswer exampleSid) = Some [(''q1'', ''short'', 40, 1)]
   \<and> map_option (\<lambda>row. (rowResponseText row, rowScore row))
       (responseTable afterSecondAnswer (''i'', ''q1'')) = Some (longAnswer, 90)
   \<and> map_sum id (\<lambda>s. (overallScore s, scoreBreakdown s))
       (fst (completeInterview (exampleReplies None) exampleSid afterSecondAnswer))
     = Inr (40, [(''a1'', 40)])"
  unfolding afterSecondAnswer_eq
  by (simp add: secondAnswerState_def followedUpContext_def exampleRow_def scoring_unfold)

section \<open>Joining the registry\<close>

text \<open>
  \<^bold>\<open>C9.\<close> When the registry holds a session for the interview (under the interview key and
  under its own id) and the interview is ongoing or scheduled, a candidate who joins replaces
  the candidate connection of that session, whatever it was, and the gateway emits the two
  events of a successful join and no error. Adding an observer whose id is already in the
  session's list leaves the registry unchanged, and after an observer has been added, adding
  it again leaves the registry unchanged.
\<close>

theorem registry_join:
  "(getSessionByInterviewId reg ivId = Some session \<and> reg (regId session) = Some session
      \<and> regInterviewId session = ivId
      \<and> (status interview = ''ONGOING'' \<or> status interview = ''SCHEDULED'')
    \<longrightarrow> handleJoinInterview now clientId ivId (Some (Some interview)) templateLookup reg
          = ([CandidateJoined (rowCandidateName interview), InterviewReady (regId session)],
             Some (regId session),
             reg(regId session \<mapsto> session\<lparr>candidateSocketId := clientId\<rparr>,
                 ''interview:'' @ ivId \<mapsto> session\<lparr>candidateSocketId := clientId\<rparr>)))
   \<and> (reg sessionId = Some s \<and> socketId \<in> set (recruiterSocketIds s)
        \<longrightarrow> addRecruiterObserver sessionId socketId reg = Inr reg)
   \<and> (addRecruiterObserver sessionId socketId reg = Inr reg'
        \<longrightarrow> addRecruiterObserver sessionId socketId reg' = Inr reg')"
proof (intro conjI impI)
  assume a: "getSessionByInterviewId reg ivId = Some session \<and> reg (regId session) = Some session
      \<and> regInterviewId session = ivId
      \<and> (status interview = ''ONGOING'' \<or> status interview = ''SCHEDULED'')"
  then have k: "reg (''interview:'' @ ivId) = Some session"
    by (simp add: getSessionByInterviewId_def)
  have "updateSession (regId session) (\<lambda>s. s\<lparr>candidateSocketId := clientId\<rparr>) reg
        = Inr (reg(regId session \<mapsto> session\<lparr>candidateSocketId := clientId\<rparr>,
                 ''interview:'' @ ivId \<mapsto> session\<lparr>candidateSocketId := clientId\<rparr>))"
    using a k by (auto simp: updateSession_def getSession_def Let_def)
  then show "handleJoinInterview now clientId ivId (Some (Some interview)) templateLookup reg
          = ([CandidateJoined (rowCandidateName interview), InterviewReady (regId session)],
             Some (regId session),
             reg(regId session \<mapsto> session\<lparr>candidateSocketId := clientId\<rparr>,
                 ''interview:'' @ ivId \<mapsto> session\<lparr>candidateSocketId := clientId\<rparr>))"
    using a by (auto simp: handleJoinInterview_def)
next
  assume "reg sessionId = Some s \<and> socketId \<in> set (recruiterSocketIds s)"
  then show "addRecruiterObserver sessionId socketId reg = Inr reg"
    by (simp add: addRecruiterObserver_def getSession_def)
next
  assume add: "addRecruiterObserver sessionId socketId reg = Inr reg'"
  then obtain s where s: "reg sessionId = Some s"
    by (auto simp: addRecruiterObserver_def getSession_def split: option.splits)
  show "addRecruiterObserver sessionId socketId reg' = Inr reg'"
  proof (cases "socketId \<in> set (recruiterSocketIds s)")
    case True
    with add s have "reg' = reg"
      by (simp add: addRecruiterObserver_def getSession_def)
    with True s show ?thesis
      by (simp add: addRecruiterObserver_def getSession_def)
  next
    case False
    with add s have "reg' sessionId = Some (s\<lparr>recruiterSocketIds := recruiterSocketIds s @ [socketId]\<rparr>)"
      by (auto simp: addRecruiterObserver_def getSession_def updateSession_def Let_def
            split: option.splits if_splits)
    then show ?thesis
      by (simp add: addRecruiterObserver_def getSession_def)
  qed
qed


lemmas registry_unfold =
  exampleRegistry_def exampleRegistrySession_def createRegistrySession_def Let_def
  showNat.simps examplePlan_def questionsOf_def exampleQuestion_def

lemma exampleRegistry_keys:
  "getSessionByInterviewId exampleRegistry ''i'' = Some exampleRegistrySession"
  "exampleRegistry (regId exampleRegistrySession) = Some exampleRegistrySession"
  "regInterviewId exampleRegistrySession = ''i''"
  "regId exampleRegistrySession = ''session:i:1''"
  "recruiterSocketIds exampleRegistrySession = []"
  by (simp_all add: getSessionByInterviewId_def registry_unfold)

lemma example_observer_added:
  "addRecruiterObserver (regId exampleRegistrySession) ''socketR'' exampleRegistry
     = Inr observedRegistry"
  using exampleRegistry_keys
  by (simp add: addRecruiterObserver_def getSession_def updateSession_def observedRegistry_def
      getSessionByInterviewId_def Let_def)

theorem registry_join_witness:
  "handleJoinInterview 2 ''socketB'' ''i'' (Some (Some (exampleInterview examplePlan)))
       (Some (Some examplePlan)) exampleRegistry
     = ([CandidateJoined (rowCandidateName (exampleInterview examplePlan)),
         InterviewReady (regId exampleRegistrySession)],
        Some (regId exampleRegistrySession),
        exampleRegistry
          (regId exampleRegistrySession \<mapsto> exampleRegistrySession\<lparr>candidateSocketId := ''socketB''\<rparr>,
           ''interview:'' @ ''i'' \<mapsto> exampleRegistrySession\<lparr>candidateSocketId := ''socketB''\<rparr>))
   \<and> addRecruiterObserver (regId exampleRegistrySession) ''socketR'' observedRegistry
       = Inr observedRegistry"
proof -
  have st: "status (exampleInterview examplePlan) = ''ONGOING''"
    by (simp add: exampleInterview_def)
  have h1: "getSessionByInterviewId exampleRegistry ''i'' = Some exampleRegistrySession
      \<and> exampleRegistry (regId exampleRegistrySession) = Some exampleRegistrySession
      \<and> regInterviewId exampleRegistrySession = ''i''
      \<and> (status (exampleInterview examplePlan) = ''ONGOING''
          \<or> status (exampleInterview examplePlan) = ''SCHEDULED'')"
    using exampleRegistry_keys st by simp
  note inst = registry_join [of exampleRegistry "''i''" exampleRegistrySession
      "exampleInterview examplePlan" 2 "''socketB''" "Some (Some examplePlan)"
      "regId exampleRegistrySession" _ "''socketR''" observedRegistry]
  from inst h1 have a: "handleJoinInterview 2 ''socketB'' ''i'' (Some (Some (exampleInterview examplePlan)))
       (Some (Some examplePlan)) exampleRegistry
     = ([CandidateJoined (rowCandidateName (exampleInterview examplePlan)),
         InterviewReady (regId exampleRegistrySession)],
        Some (regId exampleRegistrySession),
        exampleRegistry
          (regId exampleRegistrySession \<mapsto> exampleRegistrySession\<lparr>candidateSocketId := ''socketB''\<rparr>,
           ''interview:'' @ ''i'' \<mapsto> exampleRegistrySession\<lparr>candidateSocketId := ''socketB''\<rparr>))"
    by blast
  from inst example_observer_added
  have b: "addRecruiterObserver (regId exampleRegistrySession) ''socketR'' observedRegistry
       = Inr observedRegistry"
    by blast
  from a b show ?thesis by blast
qed

section \<open>Overlapping answers to one question\<close>

lemmas live_unfold =
  runLive_def act_def startCall_def resumeCall_def afterEvaluation_def afterFollowUpText_def
  afterSave_def storeEntry_def deref_def snapshot_def load_def liveStart_def returnTurn_def
  suspend_def withShared_def recordedFollowUps_def askedNext_def
  exampleLive_def failedSave_def

text \<open>The example session with no call in flight is the session that the store holds after
  \<^verbatim>\<open>startInterview\<close>.\<close>

lemma exampleLive_loaded:
  "sessionStore (liveBackend exampleLive) exampleSid = Some (snapshot (liveSession exampleLive))"
  by (simp add: live_unfold example_unfold)

text \<open>A call whose three steps run with no other call between them leaves the context that
  \<^verbatim>\<open>processResponse\<close> run to its end leaves: here the short first answer scored 40.\<close>

lemma serial_call_example:
  "snapshot (liveSession (runLive [Start 0 (exampleReplies (Some (scored 40))) ''short'',
                                    Resume 0, Resume 0] exampleLive))
     = followedUpContext"
  by (simp add: followedUpContext_def live_unfold example_unfold)

text \<open>A long answer whose save fails and three short answers, one call at a time: the first
  short answer is asked a follow-up for \<open>q1\<close>, the second moves on to \<open>q2\<close>, the third is
  asked a follow-up for \<open>q2\<close>, and each counter is 1.\<close>

lemma serial_answers_within_cap:
  "recordedFollowUps (runLive serialAnswers exampleLive) = [(''q1'', 1), (''q2'', 1)]
   \<and> askedNext (runLive serialAnswers exampleLive)
       = [(0, None), (1, Some (''q1'', ''More?'')), (2, Some (''q2'', ''Why?'')),
          (3, Some (''q2'', ''More?''))]"
  by (simp add: serialAnswers_def live_unfold example_unfold)

text \<open>
  \<^bold>\<open>C4.\<close> The recorded \<^verbatim>\<open>followUpsAsked\<close> of a question can exceed 2. In the example session a long
  answer to \<open>q1\<close> scored 80 is recorded with counter 0, and its save in the database fails, so
  the cursor stays at \<open>q1\<close>. Three short answers then arrive before any of them is evaluated.
  Each call finds the stored entry with counter 0, so the policy answers yes three times, and
  each call, when its follow-up text arrives, increments the counter of that one entry: every
  one of the three is asked a follow-up for \<open>q1\<close>, no call is left waiting, the cursor has not
  moved, and the counter recorded for \<open>q1\<close> is 3.
\<close>

theorem overlapping_answers_exceed_cap:
  "recordedFollowUps (runLive overlappingAnswers exampleLive) = [(''q1'', 3)]
   \<and> askedNext (runLive overlappingAnswers exampleLive)
       = [(0, None), (1, Some (''q1'', ''More?'')), (2, Some (''q1'', ''More?'')),
          (3, Some (''q1'', ''More?''))]
   \<and> map_of (returnedTurns (runLive overlappingAnswers exampleLive)) 0 = Some (Inl DatabaseError)
   \<and> pendingCalls (runLive overlappingAnswers exampleLive) = []
   \<and> cursor (snapshot (liveSession (runLive overlappingAnswers exampleLive))) = (0, 0)"
  by (simp add: overlappingAnswers_def live_unfold example_unfold)

text \<open>
  \<^bold>\<open>C10.\<close> More than one follow-up can be asked for a question, and a recorded counter can
  exceed 1. When two short first answers to \<open>q1\<close> overlap in the new example session, each
  call makes an entry of its own with counter 0, so both are asked a follow-up for \<open>q1\<close>, and
  the entry stored last records 1. When the entry of \<open>q1\<close> is already stored with counter 0
  (a long answer whose save failed) and two short answers overlap, both are asked a follow-up
  for \<open>q1\<close> and the counter recorded for \<open>q1\<close> is 2.
\<close>

theorem overlapping_answers_followed_up_twice:
  "askedNext (runLive overlappingFirstAnswers exampleLive)
     = [(0, Some (''q1'', ''More?'')), (1, Some (''q1'', ''More?''))]
   \<and> recordedFollowUps (runLive overlappingFirstAnswers exampleLive) = [(''q1'', 1)]
   \<and> askedNext (runLive overlappingSecondAnswers exampleLive)
       = [(0, None), (1, Some (''q1'', ''More?'')), (2, Some (''q1'', ''More?''))]
   \<and> recordedFollowUps (runLive overlappingSecondAnswers exampleLive) = [(''q1'', 2)]"
  by (simp add: overlappingFirstAnswers_def overlappingSecondAnswers_def live_unfold
      example_unfold)

section \<open>Proctoring events at the gateway\<close>

lemma Math_round_numeral: "Math_round (numeral k) = numeral k"
  using Math_round_of_int [of "numeral k"] by simp

lemmas proctor_unfold =
  handleProctorEvent_def updateProctorData_def mergeProctorData_def serviceTrustScore_def
  calculateTrustScore_def typeName_def getSession_def updateSession_def Math_round_numeral
  Let_def proctorTable_def proctorEvent_def proctorLog_def nothingCounted_def eventsCounted_def

text \<open>The object that the gateway passes to \<^verbatim>\<open>updateProctorData\<close> has one property, named by
  the type of the event; none of the four names is a property that the merge reads. So the
  merge of an event, whatever its type and payload, returns the current data with the
  defaults filled in: nothing is counted.\<close>

lemma gateway_update_counts_nothing:
  "mergeProctorData current [(typeName t, v)]
     = Inr \<lparr>faceDetections = faceDetections current,
            tabSwitches = Some (case tabSwitches current of None \<Rightarrow> 0 | Some k \<Rightarrow> k),
            fullscreenExits = Some (case fullscreenExits current of None \<Rightarrow> 0 | Some k \<Rightarrow> k),
            suspiciousActivity =
              Some (case suspiciousActivity current of None \<Rightarrow> [] | Some l \<Rightarrow> l)\<rparr>"
  by (cases t) (simp_all add: mergeProctorData_def typeName_def)

text \<open>The REST route \<^verbatim>\<open>POST :id/proctor\<close> passes its body, a \<^verbatim>\<open>Partial<ProctorData>\<close>, to the same
  \<^verbatim>\<open>updateProctorData\<close>: with two tab switches and one fullscreen exit in the body the row
  counts them and its trust score is 84.\<close>

lemma rest_update_counts:
  "updateProctorData True ''i'' [(''tabSwitches'', JsNumber 2), (''fullscreenExits'', JsNumber 1)]
     proctorTable
   = Inr [''i'' \<mapsto> \<lparr>proctorStatus = ''ONGOING'', proctorData = Some eventsCounted,
                        rowTrustScore = Some 84\<rparr>]"
  by (simp add: proctor_unfold)

text \<open>
  \<^bold>\<open>C7.\<close> The trust score of a log of proctoring events is not the claimed one. The candidate of
  the example registry sends two tab-switch events and one fullscreen-exit event for the
  ongoing interview \<open>i\<close>. The gateway handles each without an error and emits a trust score
  of 100 three times; the session of the registry keeps its trust score of 100, and the row
  of the interview ends with no tab switch and no fullscreen exit counted and a trust score
  of 100. The claimed trust score of this log is 84, which is also what
  \<^verbatim>\<open>calculateTrustScore\<close> gives on the data with the three events counted.
\<close>

theorem gateway_drops_proctor_events:
  "handleProctorEvents True (Some ''session:i:1'') proctorLog (exampleRegistry, proctorTable)
     = ([TrustScoreUpdate 100, TrustScoreUpdate 100, TrustScoreUpdate 100],
        exampleRegistry,
        [''i'' \<mapsto> \<lparr>proctorStatus = ''ONGOING'', proctorData = Some nothingCounted,
                       rowTrustScore = Some 100\<rparr>])
   \<and> claimedTrustScore proctorLog = 84
   \<and> calculateTrustScore eventsCounted = 84"
  by (simp add: proctor_unfold claimedTrustScore_def registry_unfold)

end
